theory Spec2Isabelle
  imports Main "HOL-Library.AList"
begin

section \<open>Domain types (internal/models)\<close>

text \<open>
  Go's \<^verbatim>\<open>type OrgRole string\<close>, \<^verbatim>\<open>type ActionType string\<close> and
  \<^verbatim>\<open>type InvitationStatus string\<close> are open string types with named constants; they are
  strings here too, so a value outside the named constants (the zero value \<open>''''\<close>, a role
  the directory reports that is neither member nor admin) is a value of the model as well.
\<close>

type_synonym OrgRole = string

definition RoleMember :: OrgRole where "RoleMember = ''member''"
definition RoleOwner :: OrgRole where "RoleOwner = ''admin''"

type_synonym ActionType = string

definition ActionInvite :: ActionType where "ActionInvite = ''invite''"
definition ActionRemove :: ActionType where "ActionRemove = ''remove''"
definition ActionUpdateRole :: ActionType where "ActionUpdateRole = ''update_role''"
definition ActionCancelInvite :: ActionType where "ActionCancelInvite = ''cancel_invite''"
definition ActionSkip :: ActionType where "ActionSkip = ''skip''"

text \<open>
  \<^verbatim>\<open>time.Time\<close> is an integer count of nanoseconds since the Unix epoch;
  \<^verbatim>\<open>int64\<close> invitation ids are integers (the code does no arithmetic on them).
\<close>

type_synonym time = int

record GoogleGroupMember =
  gm_Email :: string
  gm_Role :: string
  gm_Type :: string
  gm_Status :: string
  gm_IsSuspended :: bool

definition IsActive :: "GoogleGroupMember \<Rightarrow> bool" where
  "IsActive m \<longleftrightarrow> gm_Type m = ''USER'' \<and> gm_Status m = ''ACTIVE'' \<and> \<not> gm_IsSuspended m"

text \<open>A nil pointer field (\<^verbatim>\<open>*string\<close>, \<^verbatim>\<open>*int64\<close>) is \<open>None\<close>.\<close>

record GitHubOrgMember =
  gh_Username :: "string option"
  gh_Email :: "string option"
  gh_Role :: OrgRole
  gh_IsPending :: bool
  gh_InvitationID :: "int option"

definition Identifier :: "GitHubOrgMember \<Rightarrow> string" where
  "Identifier m =
     (if gh_Email m \<noteq> None \<and> the (gh_Email m) \<noteq> [] then the (gh_Email m)
      else if gh_Username m \<noteq> None then the (gh_Username m)
      else [])"

record SyncAction =
  sa_Type :: ActionType
  sa_Email :: string
  sa_GoogleEmail :: string
  sa_Username :: string
  sa_CurrentRole :: "OrgRole option"
  sa_TargetRole :: "OrgRole option"
  sa_Reason :: string
  sa_Executed :: bool
  sa_AlreadyInOrg :: bool
  sa_Error :: "string option"
  sa_Timestamp :: "time option"
  sa_InvitationID :: "int option"

text \<open>A struct literal leaves the fields it does not name at their zero values.\<close>

definition zero_action :: SyncAction where
  "zero_action =
     \<lparr>sa_Type = [], sa_Email = [], sa_GoogleEmail = [], sa_Username = [],
      sa_CurrentRole = None, sa_TargetRole = None, sa_Reason = [], sa_Executed = False,
      sa_AlreadyInOrg = False, sa_Error = None, sa_Timestamp = None, sa_InvitationID = None\<rparr>"

section \<open>The diff engine (CalculateDiff)\<close>

text \<open>
  \<^verbatim>\<open>strings.ToLower\<close> on ASCII text: the letters A to Z are mapped to a to z, every other
  byte is kept.
\<close>

definition lower_char :: "char \<Rightarrow> char" where
  "lower_char c =
     (case map_of (zip ''ABCDEFGHIJKLMNOPQRSTUVWXYZ'' ''abcdefghijklmnopqrstuvwxyz'') c of
        Some l \<Rightarrow> l
      | None \<Rightarrow> c)"

definition to_lower :: "string \<Rightarrow> string" where
  "to_lower s = map lower_char s"

text \<open>
  A Go map handed to the diff is an association list: its order is the order in which
  \<^verbatim>\<open>range\<close> happens to visit the entries, which Go leaves unspecified. Every theorem
  below holds for every such list, hence for every visiting order.
\<close>

record EmailMappings =
  Resolved :: "(string \<times> string) list"
  PendingInvitations :: "(string \<times> int) list"

record roleEntry =
  re_email :: string
  re_role :: OrgRole

text \<open>The known-identifier set, one loop for the members and one for the pending invites.\<close>

definition add_known :: "GitHubOrgMember \<Rightarrow> string set \<Rightarrow> string set" where
  "add_known member known =
     (let id = to_lower (Identifier member) in if id \<noteq> [] then insert id known else known)"

definition add_username :: "GitHubOrgMember \<Rightarrow> string set \<Rightarrow> string set" where
  "add_username member idx =
     (if gh_Username member \<noteq> None then insert (to_lower (the (gh_Username member))) idx
      else idx)"

text \<open>
  The state of the two hint loops: \<^verbatim>\<open>resolvedUserByEmail\<close>, \<^verbatim>\<open>emailByResolvedUser\<close>
  and \<^verbatim>\<open>known\<close>.
\<close>

type_synonym hints = "(string \<rightharpoonup> string) \<times> (string \<rightharpoonup> string) \<times> string set"

definition resolved_step :: "string set \<Rightarrow> string \<times> string \<Rightarrow> hints \<Rightarrow> hints" where
  "resolved_step ghByUsername kv h =
     (case (kv, h) of ((email, username), (resolvedUserByEmail, emailByResolvedUser, known)) \<Rightarrow>
        let lowerEmail = to_lower email; lowerUser = to_lower username in
        (resolvedUserByEmail(lowerEmail \<mapsto> username),
         emailByResolvedUser(lowerUser \<mapsto> lowerEmail),
         (if lowerEmail \<notin> known \<and> lowerUser \<in> ghByUsername then insert lowerEmail known
          else known)))"

definition verified_step :: "string set \<Rightarrow> string \<times> string \<Rightarrow> hints \<Rightarrow> hints" where
  "verified_step ghByUsername kv h =
     (case (kv, h) of ((email, username), (resolvedUserByEmail, emailByResolvedUser, known)) \<Rightarrow>
        let lowerEmail = to_lower email; lowerUser = to_lower username;
            fresh = (resolvedUserByEmail lowerEmail = None) in
        ((if fresh then resolvedUserByEmail(lowerEmail \<mapsto> username) else resolvedUserByEmail),
         (if fresh then emailByResolvedUser(lowerUser \<mapsto> lowerEmail) else emailByResolvedUser),
         (if lowerEmail \<notin> known \<and> lowerUser \<in> ghByUsername then insert lowerEmail known
          else known)))"

definition build_hints ::
  "GitHubOrgMember list \<Rightarrow> GitHubOrgMember list \<Rightarrow> EmailMappings option \<Rightarrow>
   (string \<times> string) list option \<Rightarrow> hints" where
  "build_hints githubMembers pendingInvites emailMappings verifiedEmails =
     (let known = fold add_known pendingInvites (fold add_known githubMembers {});
          ghByUsername = fold add_username githubMembers {};
          h0 = (Map.empty, Map.empty, known);
          h1 = (case emailMappings of None \<Rightarrow> h0
                | Some em \<Rightarrow> fold (resolved_step ghByUsername) (Resolved em) h0)
      in (case verifiedEmails of None \<Rightarrow> h1
          | Some ve \<Rightarrow> fold (verified_step ghByUsername) ve h1))"

text \<open>
  Desired state: \<^verbatim>\<open>roleByEmail\<close>, written by the members loop and then by the owners
  loop. It is kept as an association list in order of first insertion (\<open>AList.update\<close>
  overwrites in place), and \<^verbatim>\<open>range roleByEmail\<close> visits it in that order; Go leaves
  the order unspecified, and only the order of the invite actions in the output depends
  on it.
\<close>

definition overlay :: "OrgRole \<Rightarrow> GoogleGroupMember \<Rightarrow> (string \<times> roleEntry) list \<Rightarrow>
    (string \<times> roleEntry) list" where
  "overlay role member roleByEmail =
     (if \<not> IsActive member then roleByEmail
      else AList.update (to_lower (gm_Email member))
             \<lparr>re_email = gm_Email member, re_role = role\<rparr> roleByEmail)"

definition roleByEmail :: "GoogleGroupMember list \<Rightarrow> GoogleGroupMember list \<Rightarrow>
    (string \<times> roleEntry) list" where
  "roleByEmail membersGroup ownersGroup =
     fold (overlay RoleOwner) ownersGroup (fold (overlay RoleMember) membersGroup [])"

definition invite_actions :: "string set \<Rightarrow> (string \<times> roleEntry) list \<Rightarrow> SyncAction list" where
  "invite_actions known rbe =
     map (\<lambda>(key, entry). zero_action\<lparr>sa_Type := ActionInvite, sa_Email := re_email entry,
            sa_TargetRole := Some (re_role entry),
            sa_Reason := ''missing in GitHub organization''\<rparr>)
         (filter (\<lambda>(key, entry). key \<notin> known) rbe)"

definition aggressive_remove ::
  "string set \<Rightarrow> (string \<rightharpoonup> string) \<Rightarrow> GitHubOrgMember \<Rightarrow> SyncAction list" where
  "aggressive_remove googleSet emailByResolvedUser member =
     (if gh_IsPending member \<or> gh_Username member = None then []
      else let identifier = to_lower (Identifier member);
               username = to_lower (the (gh_Username member)) in
        if identifier \<noteq> [] \<and> identifier \<in> googleSet then []
        else if (case emailByResolvedUser username of Some email \<Rightarrow> email \<in> googleSet
                 | None \<Rightarrow> False) then []
        else [zero_action\<lparr>sa_Type := ActionRemove, sa_Email := the (gh_Username member),
                sa_GoogleEmail := (case emailByResolvedUser username of Some e \<Rightarrow> e | None \<Rightarrow> []),
                sa_Reason := ''missing from Google groups''\<rparr>])"

definition conservative_remove ::
  "string set \<Rightarrow> (string \<rightharpoonup> string) \<Rightarrow> GitHubOrgMember \<Rightarrow> SyncAction list" where
  "conservative_remove googleSet emailByResolvedUser member =
     (if gh_IsPending member \<or> gh_Username member = None then []
      else let username = to_lower (the (gh_Username member)) in
        (case emailByResolvedUser username of
           None \<Rightarrow> []
         | Some googleEmail \<Rightarrow>
             if googleEmail \<in> googleSet then []
             else [zero_action\<lparr>sa_Type := ActionRemove, sa_Email := the (gh_Username member),
                     sa_GoogleEmail := googleEmail,
                     sa_Reason := ''removed from Google groups (tracked via DynamoDB)''\<rparr>]))"

definition cancel_live :: "string set \<Rightarrow> GitHubOrgMember \<Rightarrow> SyncAction list" where
  "cancel_live googleSet invite =
     (if gh_Email invite = None \<or> the (gh_Email invite) = [] \<or> gh_InvitationID invite = None
      then []
      else if to_lower (the (gh_Email invite)) \<in> googleSet then []
      else [zero_action\<lparr>sa_Type := ActionCancelInvite, sa_Email := the (gh_Email invite),
              sa_InvitationID := Some (the (gh_InvitationID invite)),
              sa_Reason := ''removed from Google groups, cancelling pending invitation''\<rparr>])"

definition cancel_hint ::
  "string set \<Rightarrow> GitHubOrgMember list \<Rightarrow> string \<times> int \<Rightarrow> SyncAction list" where
  "cancel_hint googleSet pendingInvites kv =
     (case kv of (email, invID) \<Rightarrow>
        if to_lower email \<in> googleSet then []
        else if list_ex (\<lambda>invite. gh_InvitationID invite = Some invID) pendingInvites then []
        else [zero_action\<lparr>sa_Type := ActionCancelInvite, sa_Email := email,
                sa_InvitationID := Some invID,
                sa_Reason := ''removed from Google groups, cancelling pending invitation''\<rparr>])"

definition role_change ::
  "(string \<times> roleEntry) list \<Rightarrow> (string \<rightharpoonup> string) \<Rightarrow> GitHubOrgMember \<Rightarrow> SyncAction list" where
  "role_change rbe emailByResolvedUser member =
     (if gh_IsPending member \<or> gh_Username member = None then []
      else let identifier = to_lower (Identifier member);
               username = to_lower (the (gh_Username member));
               desired = (case map_of rbe identifier of
                            Some d \<Rightarrow> Some d
                          | None \<Rightarrow> (case emailByResolvedUser username of
                                       Some email \<Rightarrow> map_of rbe email
                                     | None \<Rightarrow> None))
        in (case desired of
              None \<Rightarrow> []
            | Some d \<Rightarrow>
                if gh_Role member = re_role d then []
                else [zero_action\<lparr>sa_Type := ActionUpdateRole,
                        sa_Email := the (gh_Username member),
                        sa_GoogleEmail :=
                          (case emailByResolvedUser username of Some e \<Rightarrow> e | None \<Rightarrow> []),
                        sa_CurrentRole := Some (gh_Role member),
                        sa_TargetRole := Some (re_role d),
                        sa_Reason := ''role mismatch''\<rparr>]))"

definition remove_actions ::
  "bool \<Rightarrow> EmailMappings option \<Rightarrow> string set \<Rightarrow> (string \<rightharpoonup> string) \<Rightarrow>
   GitHubOrgMember list \<Rightarrow> SyncAction list" where
  "remove_actions removeExtraMembers emailMappings googleSet emailByResolvedUser githubMembers =
     (if removeExtraMembers
      then concat (map (aggressive_remove googleSet emailByResolvedUser) githubMembers)
      else if emailMappings \<noteq> None
      then concat (map (conservative_remove googleSet emailByResolvedUser) githubMembers)
      else [])"

definition cancel_actions ::
  "EmailMappings option \<Rightarrow> string set \<Rightarrow> GitHubOrgMember list \<Rightarrow> SyncAction list" where
  "cancel_actions emailMappings googleSet pendingInvites =
     (case emailMappings of
        None \<Rightarrow> []
      | Some em \<Rightarrow>
          concat (map (cancel_live googleSet) pendingInvites) @
          concat (map (cancel_hint googleSet pendingInvites) (PendingInvitations em)))"

definition CalculateDiff ::
  "GoogleGroupMember list \<Rightarrow> GoogleGroupMember list \<Rightarrow> GitHubOrgMember list \<Rightarrow>
   GitHubOrgMember list \<Rightarrow> bool \<Rightarrow> EmailMappings option \<Rightarrow>
   (string \<times> string) list option \<Rightarrow> SyncAction list" where
  "CalculateDiff membersGroup ownersGroup githubMembers pendingInvites removeExtraMembers
     emailMappings verifiedEmails =
     (case build_hints githubMembers pendingInvites emailMappings verifiedEmails of
        (resolvedUserByEmail, emailByResolvedUser, known) \<Rightarrow>
          let rbe = roleByEmail membersGroup ownersGroup;
              googleSet = set (map fst rbe)
          in invite_actions known rbe @
             remove_actions removeExtraMembers emailMappings googleSet emailByResolvedUser
               githubMembers @
             cancel_actions emailMappings googleSet pendingInvites @
             concat (map (role_change rbe emailByResolvedUser) githubMembers))"

section \<open>Collaborators: errors, the clock, the target directory\<close>

text \<open>
  A Go \<^verbatim>\<open>error\<close> value is either the directory client's \<^verbatim>\<open>*ErrAlreadyMember\<close> or any
  other error, kept by its message.
\<close>

datatype go_error = ErrAlreadyMember string | ErrOther string

definition err_Error :: "go_error \<Rightarrow> string" where
  "err_Error e =
     (case e of
        ErrAlreadyMember email \<Rightarrow> ''user '' @ email @ '' is already a member of the organization''
      | ErrOther msg \<Rightarrow> msg)"

definition IsAlreadyMemberError :: "go_error \<Rightarrow> bool" where
  "IsAlreadyMemberError e = (case e of ErrAlreadyMember _ \<Rightarrow> True | ErrOther _ \<Rightarrow> False)"

text \<open>
  Everything outside the process (the directory, the store, the wall clock) is a state
  \<open>'w\<close> that each call reads and may change. A call that returns \<^verbatim>\<open>(value, error)\<close>
  returns \<open>Inl err\<close> or \<open>Inr value\<close>; a call that returns only an \<^verbatim>\<open>error\<close>
  returns \<open>Some err\<close> or \<open>None\<close>. \<^verbatim>\<open>SearchUserByEmail\<close> returns both components,
  because its caller reads the username whatever the error is.
\<close>

type_synonym 'w clock = "'w \<Rightarrow> time \<times> 'w"

record AuditLogEntry =
  al_Timestamp :: int
  al_Action :: string
  al_Actor :: string
  al_User :: string
  al_Org :: string
  al_InvitationID :: int

record 'w GitHubClient =
  ListPendingInvitations :: "string \<Rightarrow> 'w \<Rightarrow> (go_error + GitHubOrgMember list) \<times> 'w"
  CreateInvitation ::
    "string \<Rightarrow> string \<Rightarrow> OrgRole \<Rightarrow> 'w \<Rightarrow> (go_error + GitHubOrgMember option) \<times> 'w"
  RemoveMember :: "string \<Rightarrow> string \<Rightarrow> 'w \<Rightarrow> go_error option \<times> 'w"
  UpdateMemberRole :: "string \<Rightarrow> string \<Rightarrow> OrgRole \<Rightarrow> 'w \<Rightarrow> go_error option \<times> 'w"
  CancelInvitation :: "string \<Rightarrow> int \<Rightarrow> 'w \<Rightarrow> go_error option \<times> 'w"
  SearchUserByEmail :: "string \<Rightarrow> 'w \<Rightarrow> (string \<times> go_error option) \<times> 'w"
  GetAuditLogAddMemberEvents :: "string \<Rightarrow> int \<Rightarrow> 'w \<Rightarrow> (go_error + AuditLogEntry list) \<times> 'w"
  ListFailedInvitations :: "string \<Rightarrow> 'w \<Rightarrow> (go_error + GitHubOrgMember list) \<times> 'w"

section \<open>The action executor (ExecuteActions)\<close>

text \<open>The branch taken when the invitation is refused because the account is a member.\<close>

definition invite_already_in_org ::
  "'w clock \<Rightarrow> 'w GitHubClient \<Rightarrow> string \<Rightarrow> go_error \<Rightarrow> SyncAction \<Rightarrow> 'w \<Rightarrow> SyncAction \<times> 'w" where
  "invite_already_in_org clk client org err action0 w =
     (let action = action0\<lparr>sa_AlreadyInOrg := True\<rparr> in
      if sa_TargetRole action \<noteq> None then
        (case SearchUserByEmail client (sa_Email action) w of
           ((username, searchErr), w1) \<Rightarrow>
             if username \<noteq> [] then
               (case UpdateMemberRole client org username (the (sa_TargetRole action)) w1 of
                  (Some roleErr, w2) \<Rightarrow> (action\<lparr>sa_Error := Some (err_Error roleErr)\<rparr>, w2)
                | (None, w2) \<Rightarrow>
                    (case clk w2 of
                       (t, w3) \<Rightarrow>
                         (action\<lparr>sa_Type := ActionUpdateRole, sa_Executed := True,
                            sa_AlreadyInOrg := True, sa_Username := username,
                            sa_GoogleEmail := sa_Email action,
                            sa_Reason := ''invite upgraded: user already in org, role updated'',
                            sa_Timestamp := Some t\<rparr>, w3)))
             else (action\<lparr>sa_Error := Some (err_Error err), sa_Executed := False\<rparr>, w1))
      else (action\<lparr>sa_Error := Some (err_Error err), sa_Executed := False\<rparr>, w))"

text \<open>The loop body: one action, in the state the earlier actions left.\<close>

definition execute_action ::
  "'w clock \<Rightarrow> 'w GitHubClient \<Rightarrow> string \<Rightarrow> bool \<Rightarrow> SyncAction \<Rightarrow> 'w \<Rightarrow> SyncAction \<times> 'w" where
  "execute_action clk client org dryRun action w =
     (if dryRun then (action\<lparr>sa_Executed := False\<rparr>, w)
      else if sa_Type action = ActionInvite then
        (if sa_TargetRole action = None
         then (action\<lparr>sa_Error := Some ''target role is required''\<rparr>, w)
         else
           (case CreateInvitation client org (sa_Email action) (the (sa_TargetRole action)) w of
              (Inl err, w1) \<Rightarrow>
                if IsAlreadyMemberError err then invite_already_in_org clk client org err action w1
                else (action\<lparr>sa_Error := Some (err_Error err)\<rparr>, w1)
            | (Inr invResult, w1) \<Rightarrow>
                (case clk w1 of
                   (t, w2) \<Rightarrow>
                     (action\<lparr>sa_Executed := True,
                        sa_InvitationID :=
                          (case invResult of
                             Some member \<Rightarrow> gh_InvitationID member
                           | None \<Rightarrow> sa_InvitationID action),
                        sa_Timestamp := Some t\<rparr>, w2))))
      else if sa_Type action = ActionRemove then
        (case RemoveMember client org (sa_Email action) w of
           (Some err, w1) \<Rightarrow> (action\<lparr>sa_Error := Some (err_Error err)\<rparr>, w1)
         | (None, w1) \<Rightarrow>
             (case clk w1 of
                (t, w2) \<Rightarrow> (action\<lparr>sa_Executed := True, sa_Timestamp := Some t\<rparr>, w2)))
      else if sa_Type action = ActionUpdateRole then
        (if sa_TargetRole action = None
         then (action\<lparr>sa_Error := Some ''target role is required''\<rparr>, w)
         else
           (case UpdateMemberRole client org (sa_Email action) (the (sa_TargetRole action)) w of
              (Some err, w1) \<Rightarrow> (action\<lparr>sa_Error := Some (err_Error err)\<rparr>, w1)
            | (None, w1) \<Rightarrow>
                (case clk w1 of
                   (t, w2) \<Rightarrow> (action\<lparr>sa_Executed := True, sa_Timestamp := Some t\<rparr>, w2))))
      else if sa_Type action = ActionCancelInvite then
        (if sa_InvitationID action = None
         then (action\<lparr>sa_Error := Some ''invitation ID is required for cancel''\<rparr>, w)
         else
           (case CancelInvitation client org (the (sa_InvitationID action)) w of
              (Some err, w1) \<Rightarrow> (action\<lparr>sa_Error := Some (err_Error err)\<rparr>, w1)
            | (None, w1) \<Rightarrow>
                (case clk w1 of
                   (t, w2) \<Rightarrow> (action\<lparr>sa_Executed := True, sa_Timestamp := Some t\<rparr>, w2))))
      else (action, w))"

fun execute_loop ::
  "'w clock \<Rightarrow> 'w GitHubClient \<Rightarrow> string \<Rightarrow> bool \<Rightarrow> SyncAction list \<Rightarrow> 'w \<Rightarrow>
   SyncAction list \<times> 'w" where
  "execute_loop clk client org dryRun [] w = ([], w)"
| "execute_loop clk client org dryRun (action # rest) w =
     (case execute_action clk client org dryRun action w of
        (action', w1) \<Rightarrow>
          (case execute_loop clk client org dryRun rest w1 of
             (rest', w2) \<Rightarrow> (action' # rest', w2)))"

text \<open>
  \<^verbatim>\<open>ExecuteActions\<close> returns the slice and an error that is always nil (\<open>None\<close>), and
  leaves the outside world in the state of the last call.
\<close>

definition ExecuteActions ::
  "'w clock \<Rightarrow> 'w GitHubClient \<Rightarrow> string \<Rightarrow> SyncAction list \<Rightarrow> bool \<Rightarrow> 'w \<Rightarrow>
   (SyncAction list \<times> go_error option) \<times> 'w" where
  "ExecuteActions clk client org actions dryRun w =
     (case execute_loop clk client org dryRun actions w of
        (actions', w1) \<Rightarrow> ((actions', None), w1))"

section \<open>Invitation records and the mapping store\<close>

type_synonym InvitationStatus = string

definition InvitationPending :: InvitationStatus where "InvitationPending = ''pending''"
definition InvitationResolved :: InvitationStatus where "InvitationResolved = ''resolved''"
definition InvitationFailed :: InvitationStatus where "InvitationFailed = ''failed''"
definition InvitationExpired :: InvitationStatus where "InvitationExpired = ''expired''"
definition InvitationCancelled :: InvitationStatus where "InvitationCancelled = ''cancelled''"
definition InvitationRemoved :: InvitationStatus where "InvitationRemoved = ''removed''"

text \<open>
  The sort key of a record is \<^verbatim>\<open>INV#<invitation id>\<close> or \<^verbatim>\<open>EXISTING#<username>\<close>.
  It is kept in parsed form: the code reads an invitation id back with
  \<^verbatim>\<open>strings.TrimPrefix(sk, "INV#")\<close> and \<^verbatim>\<open>fmt.Sscanf(_, "%d", &invID)\<close>, which yields
  the id of an \<^verbatim>\<open>INV#\<close> key and fails on an \<^verbatim>\<open>EXISTING#\<close> key (it starts with a
  letter).
\<close>

datatype sort_key = INV int | EXISTING string

definition scan_invitation_id :: "sort_key \<Rightarrow> int option" where
  "scan_invitation_id sk = (case sk of INV invID \<Rightarrow> Some invID | EXISTING _ \<Rightarrow> None)"

text \<open>
  The four index attributes of the Go struct are functions of the organisation, the email
  and the status at every write (\<^verbatim>\<open>GSI1PK = "EMAIL#" + email\<close>,
  \<^verbatim>\<open>GSI1SK = GSI2PK = "ORG#" + org\<close>, \<^verbatim>\<open>GSI2SK = "STATUS#" + status\<close>), so the record
  keeps the fields they are computed from.
\<close>

record InvitationMapping =
  im_PK :: string
  im_SK :: sort_key
  im_Email :: string
  im_GitHubLogin :: "string option"
  im_Status :: InvitationStatus
  im_Role :: OrgRole
  im_InvitedAt :: time
  im_ResolvedAt :: "time option"
  im_TTL :: int

record AuditLogCursor =
  ac_PK :: string
  ac_LastTimestamp :: int
  ac_LastRun :: time

record ReconcileResult =
  rr_NewInvitationsSaved :: nat
  rr_Resolved :: nat
  rr_Failed :: nat
  rr_Expired :: nat
  rr_Cancelled :: nat
  rr_MembersRemoved :: nat
  rr_RolesUpdated :: nat
  rr_AlreadyInOrgResolved :: nat
  rr_VerifiedEmailsMapped :: nat
  rr_Errors :: "string list"

definition zero_result :: ReconcileResult where
  "zero_result =
     \<lparr>rr_NewInvitationsSaved = 0, rr_Resolved = 0, rr_Failed = 0, rr_Expired = 0,
      rr_Cancelled = 0, rr_MembersRemoved = 0, rr_RolesUpdated = 0,
      rr_AlreadyInOrgResolved = 0, rr_VerifiedEmailsMapped = 0, rr_Errors = []\<rparr>"

record 'w InvitationStore =
  SaveInvitation :: "InvitationMapping \<Rightarrow> 'w \<Rightarrow> go_error option \<times> 'w"
  GetInvitation :: "string \<Rightarrow> int \<Rightarrow> 'w \<Rightarrow> (go_error + InvitationMapping option) \<times> 'w"
  GetPendingInvitations :: "string \<Rightarrow> 'w \<Rightarrow> (go_error + InvitationMapping list) \<times> 'w"
  ResolveInvitation :: "string \<Rightarrow> int \<Rightarrow> string \<Rightarrow> 'w \<Rightarrow> go_error option \<times> 'w"
  UpdateStatus :: "string \<Rightarrow> int \<Rightarrow> InvitationStatus \<Rightarrow> 'w \<Rightarrow> go_error option \<times> 'w"
  UpdateRole :: "string \<Rightarrow> int \<Rightarrow> OrgRole \<Rightarrow> 'w \<Rightarrow> go_error option \<times> 'w"
  GetByEmail :: "string \<Rightarrow> string \<Rightarrow> 'w \<Rightarrow> (go_error + InvitationMapping list) \<times> 'w"
  GetAuditLogCursor :: "string \<Rightarrow> 'w \<Rightarrow> (go_error + AuditLogCursor option) \<times> 'w"
  SaveAuditLogCursor :: "AuditLogCursor \<Rightarrow> 'w \<Rightarrow> go_error option \<times> 'w"

text \<open>The two configuration values the reconciler reads.\<close>

record Config =
  Organization :: string
  TTLDays :: int

record 'w Reconciler =
  store :: "'w InvitationStore"
  githubClient :: "'w GitHubClient"
  cfg :: Config

text \<open>
  \<^verbatim>\<open>Time.Unix()\<close>: whole seconds since the epoch. \<^verbatim>\<open>now.AddDate(0, 0, d).Unix()\<close> in
  UTC is \<open>d\<close> days of 86400 seconds later.
\<close>

text \<open>The partition key of an organisation's records, \<^verbatim>\<open>"ORG#" + org\<close>.\<close>

definition org_pk :: "string \<Rightarrow> string" where
  "org_pk org = ''ORG#'' @ org"

definition unix :: "time \<Rightarrow> int" where
  "unix t = t div 1000000000"

definition ttl_after :: "time \<Rightarrow> int \<Rightarrow> int" where
  "ttl_after now ttlDays = unix now + ttlDays * 86400"

definition NewInvitationMapping ::
  "'w clock \<Rightarrow> string \<Rightarrow> int \<Rightarrow> string \<Rightarrow> OrgRole \<Rightarrow> int \<Rightarrow> 'w \<Rightarrow> InvitationMapping \<times> 'w" where
  "NewInvitationMapping clk org invitationID email role ttlDays w =
     (case clk w of
        (now, w1) \<Rightarrow>
          (\<lparr>im_PK = org_pk org, im_SK = INV invitationID, im_Email = email,
            im_GitHubLogin = None, im_Status = InvitationPending, im_Role = role,
            im_InvitedAt = now, im_ResolvedAt = None, im_TTL = ttl_after now ttlDays\<rparr>, w1))"

text \<open>The mapping the two \<^verbatim>\<open>EXISTING#\<close> writers build, after reading the clock.\<close>

definition existing_mapping ::
  "string \<Rightarrow> string \<Rightarrow> string \<Rightarrow> OrgRole \<Rightarrow> time \<Rightarrow> int \<Rightarrow> InvitationMapping" where
  "existing_mapping org username email role now ttlDays =
     \<lparr>im_PK = org_pk org, im_SK = EXISTING username, im_Email = email,
      im_GitHubLogin = Some username, im_Status = InvitationResolved, im_Role = role,
      im_InvitedAt = now, im_ResolvedAt = Some now, im_TTL = ttl_after now ttlDays\<rparr>"

text \<open>\<^verbatim>\<open>%d\<close> of \<^verbatim>\<open>fmt.Sprintf\<close>: an integer in decimal.\<close>

function dec_nat :: "nat \<Rightarrow> string" where
  "dec_nat n =
     (if n < 10 then [''0123456789'' ! n]
      else dec_nat (n div 10) @ [''0123456789'' ! (n mod 10)])"
  by pat_completeness auto
termination
  by (relation "measure id") auto

declare dec_nat.simps [simp del]

definition fmt_d :: "int \<Rightarrow> string" where
  "fmt_d i = (if i < 0 then CHR ''-'' # dec_nat (nat (- i)) else dec_nat (nat i))"

text \<open>\<^verbatim>\<open>strings.EqualFold\<close> on ASCII text.\<close>

definition EqualFold :: "string \<Rightarrow> string \<Rightarrow> bool" where
  "EqualFold s t \<longleftrightarrow> to_lower s = to_lower t"

section \<open>The reconciliation engine (Reconciler)\<close>

text \<open>
  Every phase is a loop over a list; its state is the counters, the error list and the
  outside world. A \<^verbatim>\<open>continue\<close> returns the state as it is at that point.
\<close>

definition resolveRole :: "SyncAction \<Rightarrow> OrgRole" where
  "resolveRole action =
     (if sa_TargetRole action \<noteq> None then the (sa_TargetRole action) else RoleMember)"

definition saveNewInvitations_step ::
  "'w clock \<Rightarrow> 'w Reconciler \<Rightarrow> string \<Rightarrow> SyncAction \<Rightarrow> (nat \<times> string list) \<times> 'w \<Rightarrow>
   (nat \<times> string list) \<times> 'w" where
  "saveNewInvitations_step clk r org action st =
     (case st of
        ((saved, errs), w) \<Rightarrow>
          if sa_Type action \<noteq> ActionInvite \<or> \<not> sa_Executed action \<or>
             sa_InvitationID action = None
          then st
          else
            (case NewInvitationMapping clk org (the (sa_InvitationID action)) (sa_Email action)
                    (resolveRole action) (TTLDays (cfg r)) w of
               (mapping, w1) \<Rightarrow>
                 (case SaveInvitation (store r) mapping w1 of
                    (Some err, w2) \<Rightarrow>
                      ((saved, errs @ [''saving invitation for '' @ sa_Email action @ '': '' @
                          err_Error err]), w2)
                  | (None, w2) \<Rightarrow> ((saved + 1, errs), w2))))"

definition saveNewInvitations ::
  "'w clock \<Rightarrow> 'w Reconciler \<Rightarrow> string \<Rightarrow> SyncAction list \<Rightarrow> 'w \<Rightarrow> (nat \<times> string list) \<times> 'w" where
  "saveNewInvitations clk r org actions w =
     fold (saveNewInvitations_step clk r org) actions ((0, []), w)"

definition resolvePending_step ::
  "'w Reconciler \<Rightarrow> string \<Rightarrow> GitHubOrgMember \<Rightarrow> (nat \<times> string list) \<times> 'w \<Rightarrow>
   (nat \<times> string list) \<times> 'w" where
  "resolvePending_step r org invite st =
     (case st of
        ((resolved, errs), w) \<Rightarrow>
          if gh_InvitationID invite = None \<or> gh_Username invite = None \<or>
             the (gh_Username invite) = []
          then st
          else
            (case GetInvitation (store r) org (the (gh_InvitationID invite)) w of
               (Inl err, w1) \<Rightarrow>
                 ((resolved, errs @ [''getting invitation '' @
                     fmt_d (the (gh_InvitationID invite)) @ '': '' @ err_Error err]), w1)
             | (Inr mapping, w1) \<Rightarrow>
                 if mapping = None \<or> im_Status (the mapping) \<noteq> InvitationPending \<or>
                    im_GitHubLogin (the mapping) \<noteq> None
                 then ((resolved, errs), w1)
                 else
                   (case ResolveInvitation (store r) org (the (gh_InvitationID invite))
                           (the (gh_Username invite)) w1 of
                      (Some err, w2) \<Rightarrow>
                        ((resolved, errs @ [''resolving invitation '' @
                            fmt_d (the (gh_InvitationID invite)) @ '': '' @ err_Error err]), w2)
                    | (None, w2) \<Rightarrow> ((resolved + 1, errs), w2))))"

definition resolvePendingWithLogin ::
  "'w Reconciler \<Rightarrow> string \<Rightarrow> 'w \<Rightarrow> (nat \<times> string list) \<times> 'w" where
  "resolvePendingWithLogin r org w =
     (case ListPendingInvitations (githubClient r) org w of
        (Inl err, w1) \<Rightarrow> ((0, [''listing pending invitations: '' @ err_Error err]), w1)
      | (Inr pendingInvites, w1) \<Rightarrow> fold (resolvePending_step r org) pendingInvites ((0, []), w1))"

text \<open>The audit loop also carries \<^verbatim>\<open>lastTimestamp\<close>.\<close>

definition resolveAudit_step ::
  "'w Reconciler \<Rightarrow> string \<Rightarrow> AuditLogEntry \<Rightarrow> (nat \<times> string list \<times> int) \<times> 'w \<Rightarrow>
   (nat \<times> string list \<times> int) \<times> 'w" where
  "resolveAudit_step r org entry st =
     (case st of
        ((resolved, errs, lastTimestamp0), w) \<Rightarrow>
          if al_InvitationID entry = 0 \<or> al_User entry = [] then st
          else
            let lastTimestamp =
                  (if al_Timestamp entry > lastTimestamp0 then al_Timestamp entry
                   else lastTimestamp0)
            in
            (case GetInvitation (store r) org (al_InvitationID entry) w of
               (Inl err, w1) \<Rightarrow>
                 ((resolved, errs @ [''getting invitation '' @ fmt_d (al_InvitationID entry) @
                     '' from audit log: '' @ err_Error err], lastTimestamp), w1)
             | (Inr mapping, w1) \<Rightarrow>
                 if mapping = None \<or> im_Status (the mapping) \<noteq> InvitationPending
                 then ((resolved, errs, lastTimestamp), w1)
                 else
                   (case ResolveInvitation (store r) org (al_InvitationID entry)
                           (al_User entry) w1 of
                      (Some err, w2) \<Rightarrow>
                        ((resolved, errs @ [''resolving invitation '' @
                            fmt_d (al_InvitationID entry) @ '' from audit log: '' @
                            err_Error err], lastTimestamp), w2)
                    | (None, w2) \<Rightarrow> ((resolved + 1, errs, lastTimestamp), w2))))"

definition resolveFromAuditLog ::
  "'w clock \<Rightarrow> 'w Reconciler \<Rightarrow> string \<Rightarrow> 'w \<Rightarrow> (nat \<times> string list) \<times> 'w" where
  "resolveFromAuditLog clk r org w =
     (case GetAuditLogCursor (store r) org w of
        (Inl err, w1) \<Rightarrow> ((0, [''getting audit log cursor: '' @ err_Error err]), w1)
      | (Inr cursor, w1) \<Rightarrow>
          let afterTimestamp = (case cursor of Some c \<Rightarrow> ac_LastTimestamp c | None \<Rightarrow> 0) in
          (case GetAuditLogAddMemberEvents (githubClient r) org afterTimestamp w1 of
             (Inl err, w2) \<Rightarrow> ((0, [''fetching audit log: '' @ err_Error err]), w2)
           | (Inr entries, w2) \<Rightarrow>
               (case fold (resolveAudit_step r org) entries ((0, [], 0), w2) of
                  ((resolved, errs, lastTimestamp), w3) \<Rightarrow>
                    if lastTimestamp > 0 then
                      (case clk w3 of
                         (now, w4) \<Rightarrow>
                           (case SaveAuditLogCursor (store r)
                                   \<lparr>ac_PK = org_pk org, ac_LastTimestamp = lastTimestamp,
                                    ac_LastRun = now\<rparr> w4 of
                              (Some err, w5) \<Rightarrow>
                                ((resolved, errs @ [''saving audit log cursor: '' @
                                    err_Error err]), w5)
                            | (None, w5) \<Rightarrow> ((resolved, errs), w5)))
                    else ((resolved, errs), w3))))"

definition failed_step ::
  "'w Reconciler \<Rightarrow> string \<Rightarrow> GitHubOrgMember \<Rightarrow> (nat \<times> string list) \<times> 'w \<Rightarrow>
   (nat \<times> string list) \<times> 'w" where
  "failed_step r org invite st =
     (case st of
        ((failed, errs), w) \<Rightarrow>
          if gh_InvitationID invite = None then st
          else
            (case GetInvitation (store r) org (the (gh_InvitationID invite)) w of
               (Inl err, w1) \<Rightarrow>
                 ((failed, errs @ [''getting invitation '' @
                     fmt_d (the (gh_InvitationID invite)) @ '' for failure check: '' @
                     err_Error err]), w1)
             | (Inr mapping, w1) \<Rightarrow>
                 if mapping = None \<or> im_Status (the mapping) \<noteq> InvitationPending
                 then ((failed, errs), w1)
                 else
                   (case UpdateStatus (store r) org (the (gh_InvitationID invite))
                           InvitationFailed w1 of
                      (Some err, w2) \<Rightarrow>
                        ((failed, errs @ [''marking invitation '' @
                            fmt_d (the (gh_InvitationID invite)) @ '' as failed: '' @
                            err_Error err]), w2)
                    | (None, w2) \<Rightarrow> ((failed + 1, errs), w2))))"

definition invitationExpiryDays :: int where
  "invitationExpiryDays = 7"

text \<open>
  \<^verbatim>\<open>time.Hour\<close> in nanoseconds. \<^verbatim>\<open>now.Sub(t)\<close> saturates at the ends of the
  \<^verbatim>\<open>Duration\<close> range (about 292 years), which does not change a comparison with seven
  days, so the difference is taken as it is.
\<close>

definition Hour :: int where
  "Hour = 3600 * 1000000000"

definition invitation_ids :: "GitHubOrgMember list \<Rightarrow> int set" where
  "invitation_ids invites = {i. \<exists>invite \<in> set invites. gh_InvitationID invite = Some i}"

definition expired_step ::
  "'w Reconciler \<Rightarrow> string \<Rightarrow> time \<Rightarrow> int set \<Rightarrow> int set \<Rightarrow> InvitationMapping \<Rightarrow>
   (nat \<times> string list) \<times> 'w \<Rightarrow> (nat \<times> string list) \<times> 'w" where
  "expired_step r org now pendingIDs failedIDs mapping st =
     (case st of
        ((expired, errs), w) \<Rightarrow>
          if now - im_InvitedAt mapping \<le> invitationExpiryDays * 24 * Hour then st
          else
            (case scan_invitation_id (im_SK mapping) of
               None \<Rightarrow> st
             | Some invID \<Rightarrow>
                 if invID \<in> failedIDs then st
                 else if invID \<notin> pendingIDs then
                   (case UpdateStatus (store r) org invID InvitationExpired w of
                      (Some err, w1) \<Rightarrow>
                        ((expired, errs @ [''marking invitation '' @ fmt_d invID @
                            '' as expired: '' @ err_Error err]), w1)
                    | (None, w1) \<Rightarrow> ((expired + 1, errs), w1))
                 else st))"

definition handleFailedAndExpired ::
  "'w clock \<Rightarrow> 'w Reconciler \<Rightarrow> string \<Rightarrow> 'w \<Rightarrow> (nat \<times> nat \<times> string list) \<times> 'w" where
  "handleFailedAndExpired clk r org w =
     (case ListFailedInvitations (githubClient r) org w of
        (listed, w1) \<Rightarrow>
          let failedInvites = (case listed of Inl err \<Rightarrow> [] | Inr invites \<Rightarrow> invites) in
          (case (case listed of
                   Inl err \<Rightarrow> ((0, [''listing failed invitations: '' @ err_Error err]), w1)
                 | Inr invites \<Rightarrow> fold (failed_step r org) invites ((0, []), w1)) of
             ((failed, errs), w2) \<Rightarrow>
               (case GetPendingInvitations (store r) org w2 of
                  (Inl err, w3) \<Rightarrow>
                    ((failed, 0, errs @ [''getting pending invitations for expiry check: '' @
                        err_Error err]), w3)
                | (Inr pendingMappings, w3) \<Rightarrow>
                    (case ListPendingInvitations (githubClient r) org w3 of
                       (Inl err, w4) \<Rightarrow>
                         ((failed, 0, errs @
                             [''listing current pending invitations for expiry check: '' @
                              err_Error err]), w4)
                     | (Inr currentPending, w4) \<Rightarrow>
                         (case clk w4 of
                            (now, w5) \<Rightarrow>
                              (case fold (expired_step r org now (invitation_ids currentPending)
                                            (invitation_ids failedInvites))
                                      pendingMappings ((0, errs), w5) of
                                 ((expired, errs'), w6) \<Rightarrow> ((failed, expired, errs'), w6)))))))"

definition markCancelled_step ::
  "'w Reconciler \<Rightarrow> string \<Rightarrow> SyncAction \<Rightarrow> (nat \<times> string list) \<times> 'w \<Rightarrow>
   (nat \<times> string list) \<times> 'w" where
  "markCancelled_step r org action st =
     (case st of
        ((cancelled, errs), w) \<Rightarrow>
          if sa_Type action \<noteq> ActionCancelInvite \<or> \<not> sa_Executed action \<or>
             sa_InvitationID action = None
          then st
          else
            (case UpdateStatus (store r) org (the (sa_InvitationID action))
                    InvitationCancelled w of
               (Some err, w1) \<Rightarrow>
                 ((cancelled, errs @ [''marking invitation '' @
                     fmt_d (the (sa_InvitationID action)) @ '' as cancelled: '' @
                     err_Error err]), w1)
             | (None, w1) \<Rightarrow> ((cancelled + 1, errs), w1)))"

definition markCancelledInvitations ::
  "'w Reconciler \<Rightarrow> string \<Rightarrow> SyncAction list \<Rightarrow> 'w \<Rightarrow> (nat \<times> string list) \<times> 'w" where
  "markCancelledInvitations r org actions w =
     fold (markCancelled_step r org) actions ((0, []), w)"

definition removed_mapping_step ::
  "'w Reconciler \<Rightarrow> string \<Rightarrow> SyncAction \<Rightarrow> InvitationMapping \<Rightarrow> (nat \<times> string list) \<times> 'w \<Rightarrow>
   (nat \<times> string list) \<times> 'w" where
  "removed_mapping_step r org action m st =
     (case st of
        ((removed, errs), w) \<Rightarrow>
          if im_Status m \<noteq> InvitationResolved then st
          else
            (case scan_invitation_id (im_SK m) of
               None \<Rightarrow> st
             | Some invID \<Rightarrow>
                 (case UpdateStatus (store r) org invID InvitationRemoved w of
                    (Some err, w1) \<Rightarrow>
                      ((removed, errs @ [''marking invitation '' @ fmt_d invID @
                          '' as removed for '' @ sa_Email action @ '': '' @ err_Error err]), w1)
                  | (None, w1) \<Rightarrow> ((removed + 1, errs), w1))))"

definition handleRemoved_step ::
  "'w Reconciler \<Rightarrow> string \<Rightarrow> SyncAction \<Rightarrow> (nat \<times> string list) \<times> 'w \<Rightarrow>
   (nat \<times> string list) \<times> 'w" where
  "handleRemoved_step r org action st =
     (case st of
        ((removed, errs), w) \<Rightarrow>
          if sa_Type action \<noteq> ActionRemove \<or> \<not> sa_Executed action \<or>
             sa_GoogleEmail action = []
          then st
          else
            (case GetByEmail (store r) (sa_GoogleEmail action) org w of
               (Inl err, w1) \<Rightarrow>
                 ((removed, errs @ [''looking up DynamoDB record for removed member '' @
                     sa_Email action @ '' (email: '' @ sa_GoogleEmail action @ ''): '' @
                     err_Error err]), w1)
             | (Inr mappings, w1) \<Rightarrow>
                 fold (removed_mapping_step r org action) mappings ((removed, errs), w1)))"

definition handleRemovedMembers ::
  "'w Reconciler \<Rightarrow> string \<Rightarrow> SyncAction list \<Rightarrow> 'w \<Rightarrow> (nat \<times> string list) \<times> 'w" where
  "handleRemovedMembers r org actions w =
     fold (handleRemoved_step r org) actions ((0, []), w)"

definition role_mapping_step ::
  "'w Reconciler \<Rightarrow> string \<Rightarrow> SyncAction \<Rightarrow> InvitationMapping \<Rightarrow> (nat \<times> string list) \<times> 'w \<Rightarrow>
   (nat \<times> string list) \<times> 'w" where
  "role_mapping_step r org action m st =
     (case st of
        ((updated, errs), w) \<Rightarrow>
          if im_Status m \<noteq> InvitationResolved then st
          else
            (case scan_invitation_id (im_SK m) of
               None \<Rightarrow> st
             | Some invID \<Rightarrow>
                 (case UpdateRole (store r) org invID (the (sa_TargetRole action)) w of
                    (Some err, w1) \<Rightarrow>
                      ((updated, errs @ [''updating role for invitation '' @ fmt_d invID @
                          '' to '' @ the (sa_TargetRole action) @ '': '' @ err_Error err]), w1)
                  | (None, w1) \<Rightarrow> ((updated + 1, errs), w1))))"

definition handleRole_step ::
  "'w Reconciler \<Rightarrow> string \<Rightarrow> SyncAction \<Rightarrow> (nat \<times> string list) \<times> 'w \<Rightarrow>
   (nat \<times> string list) \<times> 'w" where
  "handleRole_step r org action st =
     (case st of
        ((updated, errs), w) \<Rightarrow>
          if sa_Type action \<noteq> ActionUpdateRole \<or> \<not> sa_Executed action \<or>
             sa_GoogleEmail action = [] \<or> sa_TargetRole action = None
          then st
          else
            (case GetByEmail (store r) (sa_GoogleEmail action) org w of
               (Inl err, w1) \<Rightarrow>
                 ((updated, errs @ [''looking up DynamoDB record for role update '' @
                     sa_Email action @ '' (email: '' @ sa_GoogleEmail action @ ''): '' @
                     err_Error err]), w1)
             | (Inr mappings, w1) \<Rightarrow>
                 fold (role_mapping_step r org action) mappings ((updated, errs), w1)))"

definition handleRoleUpdates ::
  "'w Reconciler \<Rightarrow> string \<Rightarrow> SyncAction list \<Rightarrow> 'w \<Rightarrow> (nat \<times> string list) \<times> 'w" where
  "handleRoleUpdates r org actions w =
     fold (handleRole_step r org) actions ((0, []), w)"

definition alreadyInOrg_step ::
  "'w clock \<Rightarrow> 'w Reconciler \<Rightarrow> string \<Rightarrow> SyncAction \<Rightarrow> (nat \<times> string list) \<times> 'w \<Rightarrow>
   (nat \<times> string list) \<times> 'w" where
  "alreadyInOrg_step clk r org action st =
     (case st of
        ((resolved, errs), w) \<Rightarrow>
          if \<not> sa_AlreadyInOrg action \<or> \<not> sa_Executed action \<or> sa_Username action = []
          then st
          else
            let email = (if sa_GoogleEmail action = [] then sa_Email action
                         else sa_GoogleEmail action)
            in
            (case GetByEmail (store r) email org w of
               (Inl err, w1) \<Rightarrow>
                 ((resolved, errs @ [''checking existing mapping for '' @ email @ '': '' @
                     err_Error err]), w1)
             | (Inr existing, w1) \<Rightarrow>
                 if list_ex (\<lambda>m. im_Status m = InvitationResolved \<and> im_GitHubLogin m \<noteq> None \<and>
                               EqualFold (the (im_GitHubLogin m)) (sa_Username action)) existing
                 then ((resolved, errs), w1)
                 else
                   (case clk w1 of
                      (now, w2) \<Rightarrow>
                        (case SaveInvitation (store r)
                                (existing_mapping org (sa_Username action) email
                                   (if sa_TargetRole action \<noteq> None
                                    then the (sa_TargetRole action) else RoleMember)
                                   now (TTLDays (cfg r))) w2 of
                           (Some err, w3) \<Rightarrow>
                             ((resolved, errs @ [''saving already-in-org mapping for '' @ email @
                                 '' ('' @ sa_Username action @ ''): '' @ err_Error err]), w3)
                         | (None, w3) \<Rightarrow> ((resolved + 1, errs), w3)))))"

definition handleAlreadyInOrgMembers ::
  "'w clock \<Rightarrow> 'w Reconciler \<Rightarrow> string \<Rightarrow> SyncAction list \<Rightarrow> 'w \<Rightarrow> (nat \<times> string list) \<times> 'w" where
  "handleAlreadyInOrgMembers clk r org actions w =
     fold (alreadyInOrg_step clk r org) actions ((0, []), w)"

text \<open>
  \<^verbatim>\<open>Reconcile\<close> returns the result and an error that is always nil (\<open>None\<close>).
\<close>

definition Reconcile ::
  "'w clock \<Rightarrow> 'w Reconciler \<Rightarrow> SyncAction list \<Rightarrow> 'w \<Rightarrow>
   (ReconcileResult \<times> go_error option) \<times> 'w" where
  "Reconcile clk r executedActions w =
     (let org = Organization (cfg r) in
      case saveNewInvitations clk r org executedActions w of
        ((saved, errs1), w1) \<Rightarrow>
      case markCancelledInvitations r org executedActions w1 of
        ((cancelled, cancelErrs), w2) \<Rightarrow>
      case handleRemovedMembers r org executedActions w2 of
        ((removed, removeErrs), w3) \<Rightarrow>
      case handleRoleUpdates r org executedActions w3 of
        ((roleUpdated, roleErrs), w4) \<Rightarrow>
      case handleAlreadyInOrgMembers clk r org executedActions w4 of
        ((alreadyResolved, alreadyErrs), w5) \<Rightarrow>
      case resolvePendingWithLogin r org w5 of
        ((resolved, errs2), w6) \<Rightarrow>
      case resolveFromAuditLog clk r org w6 of
        ((resolvedAudit, errs3), w7) \<Rightarrow>
      case handleFailedAndExpired clk r org w7 of
        ((failed, expired, errs4), w8) \<Rightarrow>
          ((\<lparr>rr_NewInvitationsSaved = saved, rr_Resolved = resolved + resolvedAudit,
             rr_Failed = failed, rr_Expired = expired, rr_Cancelled = cancelled,
             rr_MembersRemoved = removed, rr_RolesUpdated = roleUpdated,
             rr_AlreadyInOrgResolved = alreadyResolved, rr_VerifiedEmailsMapped = 0,
             rr_Errors = errs1 @ cancelErrs @ removeErrs @ roleErrs @ alreadyErrs @ errs2 @
               errs3 @ errs4\<rparr>, None), w8))"





section \<open>A store held in memory, and a directory with fixed listings\<close>

text \<open>
  The theorems that speak of records and their transitions need a store that keeps what is
  written to it. This one follows \<^verbatim>\<open>Store\<close> (internal/dynamodb/client.go) call by call
  over a table of items: \<^verbatim>\<open>PutItem\<close> replaces the item under the same primary key
  (\<open>pk\<close>, \<open>sk\<close>), \<^verbatim>\<open>GetItem\<close> reads it, \<^verbatim>\<open>UpdateItem\<close> sets attributes of the
  item under the key and creates an item holding only the key and those attributes when
  there is none, and the two index queries return the items whose organisation and
  status, or email and organisation, match. No call fails. As \<^verbatim>\<open>MockStore\<close> does, it
  also records every write call in order.
\<close>

datatype store_call =
    SaveCall InvitationMapping
  | ResolveCall string int string
  | StatusCall string int InvitationStatus
  | RoleCall string int OrgRole
  | CursorCall AuditLogCursor

record world =
  table :: "InvitationMapping list"
  cursor :: "string \<rightharpoonup> AuditLogCursor"
  ttlDays :: int
  wall_clock :: time
  pending_list :: "GitHubOrgMember list"
  audit_events :: "AuditLogEntry list"
  failed_list :: "GitHubOrgMember list"
  calls :: "store_call list"

text \<open>The zero \<^verbatim>\<open>time.Time\<close> (1 January of year 1) and the zero-valued item.\<close>

definition zero_time :: time where
  "zero_time = - 62135596800 * 1000000000"

definition zero_item :: "string \<Rightarrow> sort_key \<Rightarrow> InvitationMapping" where
  "zero_item pk sk =
     \<lparr>im_PK = pk, im_SK = sk, im_Email = [], im_GitHubLogin = None, im_Status = [],
      im_Role = [], im_InvitedAt = zero_time, im_ResolvedAt = None, im_TTL = 0\<rparr>"

definition get_item :: "string \<Rightarrow> sort_key \<Rightarrow> InvitationMapping list \<Rightarrow> InvitationMapping option" where
  "get_item pk sk t = find (\<lambda>x. im_PK x = pk \<and> im_SK x = sk) t"

fun put_item :: "InvitationMapping \<Rightarrow> InvitationMapping list \<Rightarrow> InvitationMapping list" where
  "put_item m [] = [m]"
| "put_item m (x # xs) =
     (if im_PK x = im_PK m \<and> im_SK x = im_SK m then m # xs else x # put_item m xs)"

fun update_item ::
  "string \<Rightarrow> sort_key \<Rightarrow> (InvitationMapping \<Rightarrow> InvitationMapping) \<Rightarrow> InvitationMapping list \<Rightarrow>
   InvitationMapping list" where
  "update_item pk sk f [] = [f (zero_item pk sk)]"
| "update_item pk sk f (x # xs) =
     (if im_PK x = pk \<and> im_SK x = sk then f x # xs else x # update_item pk sk f xs)"

definition mem_SaveInvitation :: "InvitationMapping \<Rightarrow> world \<Rightarrow> go_error option \<times> world" where
  "mem_SaveInvitation m w =
     (None, w\<lparr>table := put_item m (table w), calls := calls w @ [SaveCall m]\<rparr>)"

definition mem_GetInvitation ::
  "string \<Rightarrow> int \<Rightarrow> world \<Rightarrow> (go_error + InvitationMapping option) \<times> world" where
  "mem_GetInvitation org invitationID w =
     (Inr (get_item (org_pk org) (INV invitationID) (table w)), w)"

definition mem_GetPendingInvitations ::
  "string \<Rightarrow> world \<Rightarrow> (go_error + InvitationMapping list) \<times> world" where
  "mem_GetPendingInvitations org w =
     (Inr (filter (\<lambda>x. im_PK x = org_pk org \<and> im_Status x = InvitationPending) (table w)), w)"

text \<open>
  \<^verbatim>\<open>ResolveInvitation\<close> reads the clock itself and stores \<^verbatim>\<open>resolved_at\<close> in RFC 3339
  form, that is, to the second.
\<close>

definition mem_ResolveInvitation ::
  "string \<Rightarrow> int \<Rightarrow> string \<Rightarrow> world \<Rightarrow> go_error option \<times> world" where
  "mem_ResolveInvitation org invitationID githubLogin w =
     (None,
      w\<lparr>table :=
          update_item (org_pk org) (INV invitationID)
            (\<lambda>x. x\<lparr>im_GitHubLogin := Some githubLogin, im_Status := InvitationResolved,
                    im_ResolvedAt := Some (unix (wall_clock w) * 1000000000),
                    im_TTL := ttl_after (wall_clock w) (ttlDays w)\<rparr>)
            (table w),
        calls := calls w @ [ResolveCall org invitationID githubLogin]\<rparr>)"

definition mem_UpdateStatus ::
  "string \<Rightarrow> int \<Rightarrow> InvitationStatus \<Rightarrow> world \<Rightarrow> go_error option \<times> world" where
  "mem_UpdateStatus org invitationID status w =
     (None,
      w\<lparr>table := update_item (org_pk org) (INV invitationID)
                   (\<lambda>x. x\<lparr>im_Status := status\<rparr>) (table w),
        calls := calls w @ [StatusCall org invitationID status]\<rparr>)"

definition mem_UpdateRole ::
  "string \<Rightarrow> int \<Rightarrow> OrgRole \<Rightarrow> world \<Rightarrow> go_error option \<times> world" where
  "mem_UpdateRole org invitationID role w =
     (None,
      w\<lparr>table := update_item (org_pk org) (INV invitationID)
                   (\<lambda>x. x\<lparr>im_Role := role\<rparr>) (table w),
        calls := calls w @ [RoleCall org invitationID role]\<rparr>)"

definition mem_GetByEmail ::
  "string \<Rightarrow> string \<Rightarrow> world \<Rightarrow> (go_error + InvitationMapping list) \<times> world" where
  "mem_GetByEmail email org w =
     (Inr (filter (\<lambda>x. im_Email x = email \<and> im_PK x = org_pk org) (table w)), w)"

definition mem_GetAuditLogCursor ::
  "string \<Rightarrow> world \<Rightarrow> (go_error + AuditLogCursor option) \<times> world" where
  "mem_GetAuditLogCursor org w = (Inr (cursor w (org_pk org)), w)"

definition mem_SaveAuditLogCursor :: "AuditLogCursor \<Rightarrow> world \<Rightarrow> go_error option \<times> world" where
  "mem_SaveAuditLogCursor c w =
     (None, w\<lparr>cursor := (cursor w)(ac_PK c \<mapsto> c), calls := calls w @ [CursorCall c]\<rparr>)"

definition mem_store :: "world InvitationStore" where
  "mem_store =
     \<lparr>SaveInvitation = mem_SaveInvitation, GetInvitation = mem_GetInvitation,
      GetPendingInvitations = mem_GetPendingInvitations,
      ResolveInvitation = mem_ResolveInvitation, UpdateStatus = mem_UpdateStatus,
      UpdateRole = mem_UpdateRole, GetByEmail = mem_GetByEmail,
      GetAuditLogCursor = mem_GetAuditLogCursor,
      SaveAuditLogCursor = mem_SaveAuditLogCursor\<rparr>"

text \<open>
  The directory answers the three listings of the reconciliation pass from fixed lists;
  the audit listing keeps the events after the given timestamp, as
  \<^verbatim>\<open>GetAuditLogAddMemberEvents\<close> does. Its other calls, which the pass never makes,
  succeed without effect.
\<close>

definition mem_client :: "world GitHubClient" where
  "mem_client =
     \<lparr>ListPendingInvitations = (\<lambda>org w. (Inr (pending_list w), w)),
      CreateInvitation = (\<lambda>org email role w. (Inr None, w)),
      RemoveMember = (\<lambda>org username w. (None, w)),
      UpdateMemberRole = (\<lambda>org username role w. (None, w)),
      CancelInvitation = (\<lambda>org invitationID w. (None, w)),
      SearchUserByEmail = (\<lambda>email w. (([], None), w)),
      GetAuditLogAddMemberEvents =
        (\<lambda>org afterTimestamp w.
           (Inr (filter (\<lambda>e. afterTimestamp < al_Timestamp e) (audit_events w)), w)),
      ListFailedInvitations = (\<lambda>org w. (Inr (failed_list w), w))\<rparr>"


definition mem_reconciler :: "string \<Rightarrow> int \<Rightarrow> world Reconciler" where
  "mem_reconciler org days =
     \<lparr>store = mem_store, githubClient = mem_client,
      cfg = \<lparr>Organization = org, TTLDays = days\<rparr>\<rparr>"

section \<open>Records under a key\<close>

text \<open>
  The primary key of an item, a table with at most one item under each key, whether the
  record under a key is pending, and the keys of the invitations that a list of executed
  actions reports as newly created. \<open>quiet\<close> is what every step of the resolution and
  sweep phases keeps: the configuration, the clock, the directory's listings and the audit
  cursor are as before, the table still has one item per key, and every record that is
  pending afterwards is, unchanged, the record that was under that key before.
  \<open>steady\<close> is what every step of the whole pass keeps: a key holds a pending record
  afterwards only when it did before or when it is one of the given keys.
\<close>

definition item_key :: "InvitationMapping \<Rightarrow> string \<times> sort_key" where
  "item_key m = (im_PK m, im_SK m)"

definition wf_table :: "InvitationMapping list \<Rightarrow> bool" where
  "wf_table t \<longleftrightarrow> distinct (map item_key t)"





section \<open>Counting the collaborator calls that fail\<close>

text \<open>
  A store, a directory and a clock wrapped so that they behave as before and, beside the
  outside world, keep a count of the calls that returned an error.
\<close>

definition count_sum :: "('w \<Rightarrow> (go_error + 'a) \<times> 'w) \<Rightarrow> 'w \<times> nat \<Rightarrow> (go_error + 'a) \<times> ('w \<times> nat)" where
  "count_sum call wn =
     (case call (fst wn) of
        (res, w') \<Rightarrow> (res, (w', snd wn + (case res of Inl err \<Rightarrow> 1 | Inr v \<Rightarrow> 0))))"

definition count_opt :: "('w \<Rightarrow> go_error option \<times> 'w) \<Rightarrow> 'w \<times> nat \<Rightarrow> go_error option \<times> ('w \<times> nat)" where
  "count_opt call wn =
     (case call (fst wn) of
        (res, w') \<Rightarrow> (res, (w', snd wn + (case res of Some err \<Rightarrow> 1 | None \<Rightarrow> 0))))"

definition count_search ::
  "('w \<Rightarrow> (string \<times> go_error option) \<times> 'w) \<Rightarrow> 'w \<times> nat \<Rightarrow>
   (string \<times> go_error option) \<times> ('w \<times> nat)" where
  "count_search call wn =
     (case call (fst wn) of
        (res, w') \<Rightarrow> (res, (w', snd wn + (case snd res of Some err \<Rightarrow> 1 | None \<Rightarrow> 0))))"

definition counted_clock :: "'w clock \<Rightarrow> ('w \<times> nat) clock" where
  "counted_clock clk wn = (case clk (fst wn) of (t, w') \<Rightarrow> (t, (w', snd wn)))"

definition counted_store :: "'w InvitationStore \<Rightarrow> ('w \<times> nat) InvitationStore" where
  "counted_store s =
     \<lparr>SaveInvitation = (\<lambda>m. count_opt (SaveInvitation s m)),
      GetInvitation = (\<lambda>org i. count_sum (GetInvitation s org i)),
      GetPendingInvitations = (\<lambda>org. count_sum (GetPendingInvitations s org)),
      ResolveInvitation = (\<lambda>org i login. count_opt (ResolveInvitation s org i login)),
      UpdateStatus = (\<lambda>org i status. count_opt (UpdateStatus s org i status)),
      UpdateRole = (\<lambda>org i role. count_opt (UpdateRole s org i role)),
      GetByEmail = (\<lambda>email org. count_sum (GetByEmail s email org)),
      GetAuditLogCursor = (\<lambda>org. count_sum (GetAuditLogCursor s org)),
      SaveAuditLogCursor = (\<lambda>c. count_opt (SaveAuditLogCursor s c))\<rparr>"

definition counted_directory :: "'w GitHubClient \<Rightarrow> ('w \<times> nat) GitHubClient" where
  "counted_directory c =
     \<lparr>ListPendingInvitations = (\<lambda>org. count_sum (ListPendingInvitations c org)),
      CreateInvitation = (\<lambda>org email role. count_sum (CreateInvitation c org email role)),
      RemoveMember = (\<lambda>org username. count_opt (RemoveMember c org username)),
      UpdateMemberRole = (\<lambda>org username role. count_opt (UpdateMemberRole c org username role)),
      CancelInvitation = (\<lambda>org i. count_opt (CancelInvitation c org i)),
      SearchUserByEmail = (\<lambda>email. count_search (SearchUserByEmail c email)),
      GetAuditLogAddMemberEvents =
        (\<lambda>org after. count_sum (GetAuditLogAddMemberEvents c org after)),
      ListFailedInvitations = (\<lambda>org. count_sum (ListFailedInvitations c org))\<rparr>"

definition counted :: "'w Reconciler \<Rightarrow> ('w \<times> nat) Reconciler" where
  "counted r =
     \<lparr>store = counted_store (store r), githubClient = counted_directory (githubClient r),
      cfg = cfg r\<rparr>"

definition failing_store :: "unit InvitationStore" where
  "failing_store =
     \<lparr>SaveInvitation = (\<lambda>m w. (Some (ErrOther ''down''), w)),
      GetInvitation = (\<lambda>org i w. (Inl (ErrOther ''down''), w)),
      GetPendingInvitations = (\<lambda>org w. (Inl (ErrOther ''down''), w)),
      ResolveInvitation = (\<lambda>org i login w. (Some (ErrOther ''down''), w)),
      UpdateStatus = (\<lambda>org i status w. (Some (ErrOther ''down''), w)),
      UpdateRole = (\<lambda>org i role w. (Some (ErrOther ''down''), w)),
      GetByEmail = (\<lambda>email org w. (Inl (ErrOther ''down''), w)),
      GetAuditLogCursor = (\<lambda>org w. (Inl (ErrOther ''down''), w)),
      SaveAuditLogCursor = (\<lambda>c w. (Some (ErrOther ''down''), w))\<rparr>"

definition failing_directory :: "unit GitHubClient" where
  "failing_directory =
     \<lparr>ListPendingInvitations = (\<lambda>org w. (Inl (ErrOther ''down''), w)),
      CreateInvitation = (\<lambda>org email role w. (Inl (ErrOther ''down''), w)),
      RemoveMember = (\<lambda>org username w. (Some (ErrOther ''down''), w)),
      UpdateMemberRole = (\<lambda>org username role w. (Some (ErrOther ''down''), w)),
      CancelInvitation = (\<lambda>org i w. (Some (ErrOther ''down''), w)),
      SearchUserByEmail = (\<lambda>email w. (([], Some (ErrOther ''down'')), w)),
      GetAuditLogAddMemberEvents = (\<lambda>org after w. (Inl (ErrOther ''down''), w)),
      ListFailedInvitations = (\<lambda>org w. (Inl (ErrOther ''down''), w))\<rparr>"

section \<open>Example inputs\<close>

text \<open>
  A directory client that counts the calls made to it: the state is the number of calls.
  It refuses every invitation as already a member, finds the account \<open>octocat\<close> for
  every email and accepts every other call. \<open>refusing_client\<close> differs in one call:
  it refuses the role update.
\<close>

definition counting_client :: "nat GitHubClient" where
  "counting_client =
     \<lparr>ListPendingInvitations = (\<lambda>org n. (Inr [], Suc n)),
      CreateInvitation = (\<lambda>org email role n. (Inl (ErrAlreadyMember email), Suc n)),
      RemoveMember = (\<lambda>org username n. (None, Suc n)),
      UpdateMemberRole = (\<lambda>org username role n. (None, Suc n)),
      CancelInvitation = (\<lambda>org invitationID n. (None, Suc n)),
      SearchUserByEmail = (\<lambda>email n. ((''octocat'', None), Suc n)),
      GetAuditLogAddMemberEvents = (\<lambda>org afterTimestamp n. (Inr [], Suc n)),
      ListFailedInvitations = (\<lambda>org n. (Inr [], Suc n))\<rparr>"

definition refusing_client :: "nat GitHubClient" where
  "refusing_client =
     counting_client\<lparr>UpdateMemberRole :=
       (\<lambda>org username role n. (Some (ErrOther ''403 forbidden''), Suc n))\<rparr>"

definition fixed_clock :: "nat clock" where
  "fixed_clock n = (1700000000000000000, n)"

definition invite_bob :: SyncAction where
  "invite_bob = zero_action\<lparr>sa_Type := ActionInvite, sa_Email := ''bob@x.com'',
     sa_TargetRole := Some RoleOwner, sa_Reason := ''missing in GitHub organization''\<rparr>"

text \<open>
  A member of the target organisation with no public email, a mapping store that is
  enabled and holds no record, one verified-email hint for that member, and one live
  pending invitation.
\<close>

definition carol :: GitHubOrgMember where
  "carol = \<lparr>gh_Username = Some ''carol'', gh_Email = None, gh_Role = RoleMember,
     gh_IsPending = False, gh_InvitationID = None\<rparr>"

definition no_records :: EmailMappings where
  "no_records = \<lparr>Resolved = [], PendingInvitations = []\<rparr>"

definition pending_555 :: GitHubOrgMember where
  "pending_555 = \<lparr>gh_Username = None, gh_Email = Some ''pending@example.com'',
     gh_Role = RoleMember, gh_IsPending = True, gh_InvitationID = Some 555\<rparr>"






section \<open>Properties of the diff engine\<close>

lemmas action_type_defs = ActionInvite_def ActionRemove_def ActionUpdateRole_def ActionCancelInvite_def ActionSkip_def

lemma action_types_distinct [simp]:
  "ActionInvite \<noteq> ActionRemove" "ActionInvite \<noteq> ActionUpdateRole" "ActionInvite \<noteq> ActionCancelInvite"
  "ActionRemove \<noteq> ActionInvite" "ActionRemove \<noteq> ActionUpdateRole" "ActionRemove \<noteq> ActionCancelInvite"
  "ActionUpdateRole \<noteq> ActionInvite" "ActionUpdateRole \<noteq> ActionRemove" "ActionUpdateRole \<noteq> ActionCancelInvite"
  "ActionCancelInvite \<noteq> ActionInvite" "ActionCancelInvite \<noteq> ActionRemove" "ActionCancelInvite \<noteq> ActionUpdateRole"
  by (simp_all add: action_type_defs)

lemma roles_distinct [simp]: "RoleMember \<noteq> RoleOwner" "RoleOwner \<noteq> RoleMember"
  by (simp_all add: RoleMember_def RoleOwner_def)

lemma overlay_keys:
  "fst ` set (overlay role m rbe) =
     (if IsActive m then insert (to_lower (gm_Email m)) (fst ` set rbe) else fst ` set rbe)"
  by (simp add: overlay_def dom_update[simplified dom_map_of_conv_image_fst] del: dom_map_of_conv_image_fst)

lemma fold_overlay_keys:
  "fst ` set (fold (overlay role) ms rbe) =
     fst ` set rbe \<union> to_lower ` gm_Email ` {m \<in> set ms. IsActive m}"
  by (induction ms arbitrary: rbe) (auto simp: overlay_keys)

lemma roleByEmail_keys:
  "fst ` set (roleByEmail ms os) = to_lower ` gm_Email ` {m \<in> set ms \<union> set os. IsActive m}"
  by (auto simp: roleByEmail_def fold_overlay_keys)













lemma invite_actions_type: "a \<in> set (invite_actions known rbe) \<Longrightarrow> sa_Type a = ActionInvite"
  by (auto simp: invite_actions_def)

lemma remove_actions_type:
  "a \<in> set (remove_actions rem em G ebru gh) \<Longrightarrow> sa_Type a = ActionRemove"
  by (auto simp: remove_actions_def aggressive_remove_def conservative_remove_def Let_def
      split: if_splits option.splits)

lemma role_change_type: "a \<in> set (role_change rbe ebru m) \<Longrightarrow> sa_Type a = ActionUpdateRole"
  by (auto simp: role_change_def Let_def split: if_splits option.splits)

lemma filter_none: "(\<And>a. a \<in> set xs \<Longrightarrow> \<not> P a) \<Longrightarrow> filter P xs = []"
  by (simp add: filter_empty_conv)

lemma cancel_live_count:
  "length (filter (\<lambda>a. sa_Type a = ActionCancelInvite \<and> sa_InvitationID a = Some i)
     (concat (map (cancel_live G) pend))) =
   length (filter (\<lambda>invite. gh_InvitationID invite = Some i \<and> gh_Email invite \<noteq> None \<and>
     the (gh_Email invite) \<noteq> [] \<and> to_lower (the (gh_Email invite)) \<notin> G) pend)"
  by (induction pend) (auto simp: cancel_live_def)

lemma cancel_hint_count:
  "length (filter (\<lambda>a. sa_Type a = ActionCancelInvite \<and> sa_InvitationID a = Some i)
     (concat (map (cancel_hint G pend) hs))) =
   length (filter (\<lambda>kv. snd kv = i \<and> to_lower (fst kv) \<notin> G \<and>
     \<not> list_ex (\<lambda>invite. gh_InvitationID invite = Some i) pend) hs)"
  by (induction hs) (auto simp: cancel_hint_def)

lemma distinct_map_filter_count:
  "distinct (List.map_filter f xs) \<Longrightarrow>
   length (filter (\<lambda>x. f x = Some i \<and> Q x) xs) = (if \<exists>x\<in>set xs. f x = Some i \<and> Q x then 1 else 0)"
proof (induction xs)
  case Nil then show ?case by simp
next
  case (Cons x xs)
  show ?case
  proof (cases "f x = Some i")
    case True
    then have "i \<notin> set (List.map_filter f xs)"
      using Cons.prems by simp
    then have "\<forall>y\<in>set xs. f y \<noteq> Some i"
      by (force simp: List.map_filter_def image_iff)
    then have "filter (\<lambda>x. f x = Some i \<and> Q x) xs = []" by (simp add: filter_empty_conv)
    then show ?thesis using True \<open>\<forall>y\<in>set xs. f y \<noteq> Some i\<close> by auto
  next
    case False
    then have "distinct (List.map_filter f xs)"
      using Cons.prems by (auto simp: List.map_filter_simps split: option.splits)
    then show ?thesis using Cons.IH False by auto
  qed
qed

lemma distinct_snd_count:
  "distinct (map snd hs) \<Longrightarrow>
   length (filter (\<lambda>kv. snd kv = i \<and> Q kv) hs) = (if \<exists>kv\<in>set hs. snd kv = i \<and> Q kv then 1 else 0)"
proof (induction hs)
  case Nil then show ?case by simp
next
  case (Cons x xs)
  show ?case
  proof (cases "snd x = i")
    case True
    then have "\<forall>y\<in>set xs. snd y \<noteq> i" using Cons.prems by (auto simp: image_iff)
    then have "filter (\<lambda>kv. snd kv = i \<and> Q kv) xs = []" by (simp add: filter_empty_conv)
    then show ?thesis using True \<open>\<forall>y\<in>set xs. snd y \<noteq> i\<close> by auto
  next
    case False
    then show ?thesis using Cons by auto
  qed
qed

lemma CalculateDiff_cancel_filter:
  "filter (\<lambda>a. sa_Type a = ActionCancelInvite \<and> P a)
     (CalculateDiff ms os gh pend rem em ve) =
   filter (\<lambda>a. sa_Type a = ActionCancelInvite \<and> P a)
     (cancel_actions em (set (map fst (roleByEmail ms os))) pend)"
proof -
  obtain r e k where h: "build_hints gh pend em ve = (r, e, k)" by (cases "build_hints gh pend em ve")
  have 1: "filter (\<lambda>a. sa_Type a = ActionCancelInvite \<and> P a) (invite_actions k (roleByEmail ms os)) = []"
    by (rule filter_none) (auto dest: invite_actions_type)
  have 2: "filter (\<lambda>a. sa_Type a = ActionCancelInvite \<and> P a)
      (remove_actions rem em (set (map fst (roleByEmail ms os))) e gh) = []"
    by (rule filter_none) (auto dest: remove_actions_type)
  have 3: "filter (\<lambda>a. sa_Type a = ActionCancelInvite \<and> P a)
      (concat (map (role_change (roleByEmail ms os) e) gh)) = []"
    by (rule filter_none) (auto dest: role_change_type)
  show ?thesis
    using 1 2 3 by (simp add: CalculateDiff_def h Let_def del: set_map)
qed

text \<open>
  Without verified-email hints the conservative branch does what its comment says: every
  member it removes is traced by a resolved mapping-store record.
\<close>

lemma resolved_fold_reverse:
  "fold (resolved_step G) rs h = (r', e', k') \<Longrightarrow> e' u = Some x \<Longrightarrow>
   fst (snd h) u = Some x \<or> (\<exists>kv\<in>set rs. to_lower (snd kv) = u \<and> x = to_lower (fst kv))"
proof (induction rs arbitrary: h)
  case Nil
  then show ?case by auto
next
  case (Cons kv rs)
  obtain r e k where h: "h = (r, e, k)" by (cases h)
  obtain email user where kv: "kv = (email, user)" by (cases kv)
  have step: "resolved_step G kv h =
      (r(to_lower email \<mapsto> user), e(to_lower user \<mapsto> to_lower email),
       (if to_lower email \<notin> k \<and> to_lower user \<in> G then insert (to_lower email) k else k))"
    by (simp add: resolved_step_def h kv Let_def)
  from Cons.prems(1) have "fold (resolved_step G) rs (resolved_step G kv h) = (r', e', k')"
    by simp
  from Cons.IH[OF this Cons.prems(2)]
  show ?case unfolding step using h kv by (auto split: if_splits)
qed

lemma conservative_remove_tracked:
  assumes "a \<in> set (CalculateDiff ms os gh pend False (Some em) None)"
      and "sa_Type a = ActionRemove"
  shows "\<exists>kv\<in>set (Resolved em). to_lower (snd kv) = to_lower (sa_Email a) \<and>
           sa_GoogleEmail a = to_lower (fst kv)"
proof -
  obtain r e k where h: "build_hints gh pend (Some em) None = (r, e, k)"
    by (cases "build_hints gh pend (Some em) None")
  then have f: "fold (resolved_step (fold add_username gh {})) (Resolved em)
      (Map.empty, Map.empty, fold add_known pend (fold add_known gh {})) = (r, e, k)"
    by (simp add: build_hints_def Let_def)
  have "a \<in> set (remove_actions False (Some em) (set (map fst (roleByEmail ms os))) e gh)"
    using assms h
    by (auto simp: CalculateDiff_def Let_def
        dest: invite_actions_type role_change_type
        simp: cancel_actions_def cancel_live_def cancel_hint_def split: if_splits)
  then have "e (to_lower (sa_Email a)) = Some (sa_GoogleEmail a)"
    by (auto simp: remove_actions_def conservative_remove_def Let_def
        split: if_splits option.splits)
  with resolved_fold_reverse[OF f, of "to_lower (sa_Email a)" "sa_GoogleEmail a"]
  show ?thesis by auto
qed

text \<open>
  C1. In conservative mode a member with no mapping-store record is never removed. The
  code removes one: the reverse index that the conservative branch consults is filled
  from the verified-email hints as well as from the mapping store, so a member known only
  through a verified-email hint whose email is not in a source group is removed, with the
  reason "tracked via DynamoDB". Here the mapping store is enabled and empty.
\<close>

theorem C1_untracked_member_removed:
  "CalculateDiff [] [] [carol] [] False (Some no_records)
     (Some [(''carol@corp.example'', ''carol'')]) =
   [zero_action\<lparr>sa_Type := ActionRemove, sa_Email := ''carol'',
      sa_GoogleEmail := ''carol@corp.example'',
      sa_Reason := ''removed from Google groups (tracked via DynamoDB)''\<rparr>]"
  by (simp add: CalculateDiff_def build_hints_def carol_def no_records_def add_known_def
      add_username_def Identifier_def verified_step_def roleByEmail_def invite_actions_def
      remove_actions_def conservative_remove_def cancel_actions_def role_change_def
      to_lower_def lower_char_def Let_def zero_action_def)

text \<open>
  C6, as the code has it. With mapping hints present, and the invitation ids of the live
  pending invites pairwise distinct and those of the persisted hints pairwise distinct,
  the output holds exactly one cancel action for an invitation id \<open>i\<close> when a live
  pending invite with that id has a non-empty email that is not in desired state, or
  when no live pending invite has that id and a persisted hint with that id has an email
  that is not in desired state; it holds none for any other id. Desired state is the set
  of lower-cased emails of the active members of the two source groups. With no mapping
  hints the output holds no cancel action at all.
\<close>

theorem C6_cancel_once:
  assumes "distinct (List.map_filter gh_InvitationID pendingInvites)"
      and "distinct (map snd (PendingInvitations em))"
  shows "length (filter (\<lambda>a. sa_Type a = ActionCancelInvite \<and> sa_InvitationID a = Some i)
           (CalculateDiff membersGroup ownersGroup githubMembers pendingInvites
              removeExtraMembers (Some em) verifiedEmails)) =
         (if (\<exists>invite\<in>set pendingInvites. gh_InvitationID invite = Some i \<and> gh_Email invite \<noteq> None \<and>
                the (gh_Email invite) \<noteq> [] \<and>
                to_lower (the (gh_Email invite)) \<notin>
                  to_lower ` gm_Email ` {m \<in> set membersGroup \<union> set ownersGroup. IsActive m})
           \<or> ((\<forall>invite\<in>set pendingInvites. gh_InvitationID invite \<noteq> Some i) \<and>
               (\<exists>email. (email, i) \<in> set (PendingInvitations em) \<and>
                  to_lower email \<notin>
                    to_lower ` gm_Email ` {m \<in> set membersGroup \<union> set ownersGroup. IsActive m}))
          then 1 else 0)
       \<and> filter (\<lambda>a. sa_Type a = ActionCancelInvite)
           (CalculateDiff membersGroup ownersGroup githubMembers pendingInvites
              removeExtraMembers None verifiedEmails) = []"
proof -
  define D where "D = to_lower ` gm_Email ` {m \<in> set membersGroup \<union> set ownersGroup. IsActive m}"
  let ?G = "set (map fst (roleByEmail membersGroup ownersGroup))"
  have G: "?G = D" using roleByEmail_keys[of membersGroup ownersGroup] by (simp add: D_def)
  let ?P = "\<lambda>a. sa_Type a = ActionCancelInvite \<and> sa_InvitationID a = Some i"
  let ?live = "\<lambda>invite. gh_InvitationID invite = Some i \<and> (gh_Email invite \<noteq> None \<and>
     the (gh_Email invite) \<noteq> [] \<and> to_lower (the (gh_Email invite)) \<notin> D)"
  let ?hint = "\<lambda>kv. snd kv = i \<and> (to_lower (fst kv) \<notin> D \<and>
     \<not> list_ex (\<lambda>invite. gh_InvitationID invite = Some i) pendingInvites)"
  have "length (filter ?P (CalculateDiff membersGroup ownersGroup githubMembers pendingInvites
              removeExtraMembers (Some em) verifiedEmails)) =
        length (filter ?P (cancel_actions (Some em) ?G pendingInvites))"
    using CalculateDiff_cancel_filter[where P = "\<lambda>a. sa_InvitationID a = Some i"] by simp
  also have "\<dots> = length (filter ?live pendingInvites) + length (filter ?hint (PendingInvitations em))"
    unfolding G by (simp add: cancel_actions_def cancel_live_count cancel_hint_count del: set_map)
  also have "length (filter ?live pendingInvites) = (if \<exists>x\<in>set pendingInvites. ?live x then 1 else 0)"
    using assms(1) by (rule distinct_map_filter_count)
  also have "length (filter ?hint (PendingInvitations em)) =
       (if \<exists>kv\<in>set (PendingInvitations em). ?hint kv then 1 else 0)"
    using assms(2) by (rule distinct_snd_count)
  finally have count: "length (filter ?P (CalculateDiff membersGroup ownersGroup githubMembers
       pendingInvites removeExtraMembers (Some em) verifiedEmails)) =
     (if \<exists>x\<in>set pendingInvites. ?live x then 1 else 0) +
     (if \<exists>kv\<in>set (PendingInvitations em). ?hint kv then 1 else 0)" .
  have hint_eq: "(\<exists>kv\<in>set (PendingInvitations em). ?hint kv) \<longleftrightarrow>
     ((\<forall>invite\<in>set pendingInvites. gh_InvitationID invite \<noteq> Some i) \<and>
       (\<exists>email. (email, i) \<in> set (PendingInvitations em) \<and> to_lower email \<notin> D))"
    (is "?L \<longleftrightarrow> ?R")
  proof
    assume ?L
    then obtain kv where kv: "kv \<in> set (PendingInvitations em)" "?hint kv" by blast
    obtain e j where ej: "kv = (e, j)" by (cases kv)
    have "(e, i) \<in> set (PendingInvitations em)" "to_lower e \<notin> D"
      using kv ej by auto
    moreover have "\<forall>invite\<in>set pendingInvites. gh_InvitationID invite \<noteq> Some i"
      using kv(2) by (simp add: list_ex_iff)
    ultimately show ?R by blast
  next
    assume r: ?R
    then obtain email where e: "(email, i) \<in> set (PendingInvitations em)" "to_lower email \<notin> D"
      by blast
    have "?hint (email, i)" using r e by (simp add: list_ex_iff)
    then show ?L using e(1) by (intro bexI[of _ "(email, i)"])
  qed
  have excl: "(\<exists>x\<in>set pendingInvites. ?live x) \<Longrightarrow>
      \<not> (\<forall>invite\<in>set pendingInvites. gh_InvitationID invite \<noteq> Some i)"
    by blast
  have none: "filter (\<lambda>a. sa_Type a = ActionCancelInvite)
           (CalculateDiff membersGroup ownersGroup githubMembers pendingInvites
              removeExtraMembers None verifiedEmails) = []"
    using CalculateDiff_cancel_filter[where P = "\<lambda>a. True" and em = None]
    by (simp add: cancel_actions_def)
  have "length (filter ?P (CalculateDiff membersGroup ownersGroup githubMembers
       pendingInvites removeExtraMembers (Some em) verifiedEmails)) =
     (if (\<exists>x\<in>set pendingInvites. ?live x) \<or>
         ((\<forall>invite\<in>set pendingInvites. gh_InvitationID invite \<noteq> Some i) \<and>
          (\<exists>email. (email, i) \<in> set (PendingInvitations em) \<and> to_lower email \<notin> D))
      then 1 else 0)"
    unfolding count hint_eq using excl by (simp split: if_splits)
  then show ?thesis using none unfolding D_def by simp
qed

theorem C6_cancel_once_witness:
  "distinct (List.map_filter gh_InvitationID [pending_555]) \<and>
   distinct (map snd (PendingInvitations no_records)) \<and>
   length (filter (\<lambda>a. sa_Type a = ActionCancelInvite \<and> sa_InvitationID a = Some 555)
     (CalculateDiff [] [] [] [pending_555] False (Some no_records) None)) = 1"
  using C6_cancel_once[of "[pending_555]" no_records 555 "[]" "[]" "[]" False None]
  by (simp add: pending_555_def no_records_def)

text \<open>
  C6 as stated fails when the mapping hints are absent: a live pending invite whose email
  is not in desired state gets no cancel action.
\<close>

theorem C6_no_hints_no_cancel:
  "CalculateDiff [] [] [] [pending_555] False None None = []"
  by (simp add: CalculateDiff_def build_hints_def pending_555_def add_known_def
      Identifier_def roleByEmail_def invite_actions_def remove_actions_def
      cancel_actions_def role_change_def Let_def)









section \<open>Properties of the action executor\<close>

lemma execute_loop_dry:
  "execute_loop clk client org True actions w = (map (\<lambda>a. a\<lparr>sa_Executed := False\<rparr>) actions, w)"
  by (induction actions) (simp_all add: execute_action_def)

lemma zero_action_error: "sa_Error zero_action = None"
  by (simp add: zero_action_def)

lemma CalculateDiff_error:
  assumes "a \<in> set (CalculateDiff ms os gh pend rem em ve)"
  shows "sa_Error a = None"
proof -
  obtain r e k where h: "build_hints gh pend em ve = (r, e, k)" by (cases "build_hints gh pend em ve")
  from assms h show ?thesis
    by (auto simp: CalculateDiff_def Let_def invite_actions_def remove_actions_def
        aggressive_remove_def conservative_remove_def cancel_actions_def cancel_live_def
        cancel_hint_def role_change_def zero_action_error
        split: if_splits option.splits)
qed

text \<open>
  C2, as the code has it. A dry run returns the outside world as it was, for every client
  (among them one that counts its calls), so it makes no directory call; it returns every
  action with \<open>executed = false\<close> and every other field, the error included, as it came
  in. The error is therefore unset when it came in unset, which is the case of every
  action the diff engine produces.
\<close>

theorem C2_dry_run:
  "ExecuteActions clk client org actions True w =
     ((map (\<lambda>a. a\<lparr>sa_Executed := False\<rparr>) actions, None), w) \<and>
   list_all (\<lambda>a. \<not> sa_Executed a \<and> sa_Error a = None)
     (fst (fst (ExecuteActions clk client org
        (CalculateDiff membersGroup ownersGroup githubMembers pendingInvites
           removeExtraMembers emailMappings verifiedEmails) True w)))"
  by (simp add: ExecuteActions_def execute_loop_dry list_all_iff CalculateDiff_error)

text \<open>
  C2 as stated fails for an action that comes in with an error: the dry run returns it
  with the error still set.
\<close>

theorem C2_error_kept:
  "fst (ExecuteActions fixed_clock counting_client ''acme''
          [invite_bob\<lparr>sa_Error := Some ''boom''\<rparr>] True 0) =
     ([invite_bob\<lparr>sa_Error := Some ''boom''\<rparr>], None)"
  by (simp add: ExecuteActions_def execute_action_def invite_bob_def zero_action_def)

text \<open>
  C3, as the code has it. An invite action with a target role whose create-invitation
  call is refused as "already a member" is marked \<open>alreadyPresent\<close> and the account is
  looked up by email. With no account found (zero or ambiguous matches) the action is
  left unexecuted with the conflict error attached. With an account found, a role update
  is issued against it: when that call succeeds the action becomes an executed
  \<open>updateRole\<close> with \<open>resolvedAccount\<close> and \<open>sourceEmail\<close> set and a timestamp; when
  it fails the action stays an invite, is not marked executed and carries the error of
  the role update. The actions after it are executed from the state this leaves.
\<close>

theorem C3_invite_upgrade:
  assumes "sa_Type action = ActionInvite"
      and "sa_TargetRole action = Some role"
      and "CreateInvitation client org (sa_Email action) role w = (Inl err, w1)"
      and "IsAlreadyMemberError err"
      and "SearchUserByEmail client (sa_Email action) w1 = ((username, searchErr), w2)"
      and "UpdateMemberRole client org username role w2 = (roleErr, w3)"
      and "clk w3 = (t, w4)"
  shows "ExecuteActions clk client org (action # rest) False w =
     (case
        (if username = [] then
           (action\<lparr>sa_AlreadyInOrg := True, sa_Error := Some (err_Error err),
              sa_Executed := False\<rparr>, w2)
         else if roleErr \<noteq> None then
           (action\<lparr>sa_AlreadyInOrg := True, sa_Error := Some (err_Error (the roleErr))\<rparr>, w3)
         else
           (action\<lparr>sa_Type := ActionUpdateRole, sa_Executed := True, sa_AlreadyInOrg := True,
              sa_Username := username, sa_GoogleEmail := sa_Email action,
              sa_Reason := ''invite upgraded: user already in org, role updated'',
              sa_Timestamp := Some t\<rparr>, w4))
      of (action', w') \<Rightarrow>
        (case ExecuteActions clk client org rest False w' of
           ((rest', e), w'') \<Rightarrow> ((action' # rest', e), w'')))"
  using assms
  by (cases roleErr)
     (auto simp: ExecuteActions_def execute_action_def invite_already_in_org_def Let_def
       split: prod.splits)

theorem C3_invite_upgrade_witness:
  "ExecuteActions fixed_clock counting_client ''acme'' [invite_bob] False 0 =
     (([invite_bob\<lparr>sa_Type := ActionUpdateRole, sa_Executed := True, sa_AlreadyInOrg := True,
              sa_Username := ''octocat'', sa_GoogleEmail := ''bob@x.com'',
              sa_Reason := ''invite upgraded: user already in org, role updated'',
              sa_Timestamp := Some 1700000000000000000\<rparr>], None), 3)"
  using C3_invite_upgrade[of invite_bob RoleOwner counting_client "''acme''" 0
      "ErrAlreadyMember ''bob@x.com''" 1 "''octocat''" None 2 None 3 fixed_clock
      1700000000000000000 3 "[]"]
  by (simp add: invite_bob_def zero_action_def counting_client_def fixed_clock_def
      IsAlreadyMemberError_def ExecuteActions_def numeral_3_eq_3 numeral_2_eq_2)

text \<open>
  C3 as stated fails when the role update is refused: one account is found, and the
  action is returned as an invite that is not executed, with the error of the role
  update. Three directory calls were made: the invitation, the search, the role update.
\<close>

theorem C3_role_update_refused:
  "ExecuteActions fixed_clock refusing_client ''acme'' [invite_bob] False 0 =
     (([invite_bob\<lparr>sa_AlreadyInOrg := True, sa_Error := Some ''403 forbidden''\<rparr>], None), 3)"
  by (simp add: ExecuteActions_def execute_action_def invite_already_in_org_def Let_def
      refusing_client_def counting_client_def invite_bob_def zero_action_def
      IsAlreadyMemberError_def err_Error_def ActionInvite_def numeral_3_eq_3)

section \<open>Properties of the reconciliation engine\<close>

text \<open>
  The counted run is the plain run, with the count of failed calls kept in step with the
  length of the error list: each loop body, each loop and each phase.
\<close>

lemma counted_sel [simp]:
  "cfg (counted r) = cfg r"
  "SaveInvitation (store (counted r)) m = count_opt (SaveInvitation (store r) m)"
  "GetInvitation (store (counted r)) org i = count_sum (GetInvitation (store r) org i)"
  "GetPendingInvitations (store (counted r)) org = count_sum (GetPendingInvitations (store r) org)"
  "ResolveInvitation (store (counted r)) org i login =
     count_opt (ResolveInvitation (store r) org i login)"
  "UpdateStatus (store (counted r)) org i st = count_opt (UpdateStatus (store r) org i st)"
  "UpdateRole (store (counted r)) org i role = count_opt (UpdateRole (store r) org i role)"
  "GetByEmail (store (counted r)) email org = count_sum (GetByEmail (store r) email org)"
  "GetAuditLogCursor (store (counted r)) org = count_sum (GetAuditLogCursor (store r) org)"
  "SaveAuditLogCursor (store (counted r)) c = count_opt (SaveAuditLogCursor (store r) c)"
  "ListPendingInvitations (githubClient (counted r)) org =
     count_sum (ListPendingInvitations (githubClient r) org)"
  "GetAuditLogAddMemberEvents (githubClient (counted r)) org after =
     count_sum (GetAuditLogAddMemberEvents (githubClient r) org after)"
  "ListFailedInvitations (githubClient (counted r)) org =
     count_sum (ListFailedInvitations (githubClient r) org)"
  by (simp_all add: counted_def counted_store_def counted_directory_def)

text \<open>A loop state of the plain run, with the count that the counted run holds beside it.\<close>

definition tally :: "nat \<Rightarrow> ('c \<times> string list) \<times> 'w \<Rightarrow> ('c \<times> string list) \<times> ('w \<times> nat)" where
  "tally n s = (fst s, (snd s, n + length (snd (fst s))))"

definition tally3 ::
  "nat \<Rightarrow> ('c \<times> string list \<times> 'd) \<times> 'w \<Rightarrow> ('c \<times> string list \<times> 'd) \<times> ('w \<times> nat)" where
  "tally3 n s = (fst s, (snd s, n + length (fst (snd (fst s)))))"

lemma fold_tally:
  assumes "\<And>x s. f' x (tally n s) = tally n (f x s)"
  shows "fold f' xs (tally n s) = tally n (fold f xs s)"
  by (induction xs arbitrary: s) (simp_all add: assms)

lemma fold_tally3:
  assumes "\<And>x s. f' x (tally3 n s) = tally3 n (f x s)"
  shows "fold f' xs (tally3 n s) = tally3 n (fold f xs s)"
  by (induction xs arbitrary: s) (simp_all add: assms)

lemma tally_saveNew_step:
  "saveNewInvitations_step (counted_clock clk) (counted r) org action (tally n s) =
   tally n (saveNewInvitations_step clk r org action s)"
  by (cases s)
     (auto simp: tally_def saveNewInvitations_step_def NewInvitationMapping_def counted_clock_def
       count_opt_def split: prod.splits option.splits)

lemma tally_markCancelled_step:
  "markCancelled_step (counted r) org action (tally n s) =
   tally n (markCancelled_step r org action s)"
  by (cases s)
     (auto simp: tally_def markCancelled_step_def count_opt_def split: prod.splits option.splits)

lemma tally_removed_mapping_step:
  "removed_mapping_step (counted r) org action m (tally n s) =
   tally n (removed_mapping_step r org action m s)"
  by (cases s)
     (auto simp: tally_def removed_mapping_step_def count_opt_def
       split: prod.splits option.splits)

lemma tally_role_mapping_step:
  "role_mapping_step (counted r) org action m (tally n s) =
   tally n (role_mapping_step r org action m s)"
  by (cases s)
     (auto simp: tally_def role_mapping_step_def count_opt_def
       split: prod.splits option.splits)

lemma tally_handleRemoved_step:
  "handleRemoved_step (counted r) org action (tally n s) =
   tally n (handleRemoved_step r org action s)"
proof -
  obtain c errs w where s: "s = ((c, errs), w)" by (cases s) auto
  have inner: "fold (removed_mapping_step (counted r) org action) ms (tally n ((c, errs), w1)) =
      tally n (fold (removed_mapping_step r org action) ms ((c, errs), w1))" for ms w1
    by (rule fold_tally) (rule tally_removed_mapping_step)
  show ?thesis
    using inner
    by (auto simp: s tally_def handleRemoved_step_def count_sum_def
        split: prod.splits sum.splits)
qed

lemma tally_handleRole_step:
  "handleRole_step (counted r) org action (tally n s) =
   tally n (handleRole_step r org action s)"
proof -
  obtain c errs w where s: "s = ((c, errs), w)" by (cases s) auto
  have inner: "fold (role_mapping_step (counted r) org action) ms (tally n ((c, errs), w1)) =
      tally n (fold (role_mapping_step r org action) ms ((c, errs), w1))" for ms w1
    by (rule fold_tally) (rule tally_role_mapping_step)
  show ?thesis
    using inner
    by (auto simp: s tally_def handleRole_step_def count_sum_def
        split: prod.splits sum.splits)
qed

lemma tally_alreadyInOrg_step:
  "alreadyInOrg_step (counted_clock clk) (counted r) org action (tally n s) =
   tally n (alreadyInOrg_step clk r org action s)"
  by (cases s)
     (auto simp: tally_def alreadyInOrg_step_def counted_clock_def count_opt_def count_sum_def
       Let_def split: prod.splits option.splits sum.splits)

lemma tally_resolvePending_step:
  "resolvePending_step (counted r) org invite (tally n s) =
   tally n (resolvePending_step r org invite s)"
  by (cases s)
     (auto simp: tally_def resolvePending_step_def count_opt_def count_sum_def
       split: prod.splits option.splits sum.splits)

lemma tally_resolveAudit_step:
  "resolveAudit_step (counted r) org entry (tally3 n s) =
   tally3 n (resolveAudit_step r org entry s)"
  by (cases s)
     (auto simp: tally3_def resolveAudit_step_def count_opt_def count_sum_def Let_def
       split: prod.splits option.splits sum.splits)

lemma tally_failed_step:
  "failed_step (counted r) org invite (tally n s) = tally n (failed_step r org invite s)"
  by (cases s)
     (auto simp: tally_def failed_step_def count_opt_def count_sum_def
       split: prod.splits option.splits sum.splits)

lemma tally_expired_step:
  "expired_step (counted r) org now P F m (tally n s) = tally n (expired_step r org now P F m s)"
  by (cases s)
     (auto simp: tally_def expired_step_def count_opt_def
       split: prod.splits option.splits)

lemma tally_start: "((c, []), (w, n)) = tally n ((c, []), w)"
  by (simp add: tally_def)

lemma tally_saveNewInvitations:
  "saveNewInvitations (counted_clock clk) (counted r) org actions (w, n) =
   tally n (saveNewInvitations clk r org actions w)"
  unfolding saveNewInvitations_def tally_start
  by (rule fold_tally) (rule tally_saveNew_step)

lemma tally_markCancelledInvitations:
  "markCancelledInvitations (counted r) org actions (w, n) =
   tally n (markCancelledInvitations r org actions w)"
  unfolding markCancelledInvitations_def tally_start
  by (rule fold_tally) (rule tally_markCancelled_step)

lemma tally_handleRemovedMembers:
  "handleRemovedMembers (counted r) org actions (w, n) =
   tally n (handleRemovedMembers r org actions w)"
  unfolding handleRemovedMembers_def tally_start
  by (rule fold_tally) (rule tally_handleRemoved_step)

lemma tally_handleRoleUpdates:
  "handleRoleUpdates (counted r) org actions (w, n) =
   tally n (handleRoleUpdates r org actions w)"
  unfolding handleRoleUpdates_def tally_start
  by (rule fold_tally) (rule tally_handleRole_step)

lemma tally_handleAlreadyInOrgMembers:
  "handleAlreadyInOrgMembers (counted_clock clk) (counted r) org actions (w, n) =
   tally n (handleAlreadyInOrgMembers clk r org actions w)"
  unfolding handleAlreadyInOrgMembers_def tally_start
  by (rule fold_tally) (rule tally_alreadyInOrg_step)

lemma tally_resolvePendingWithLogin:
  "resolvePendingWithLogin (counted r) org (w, n) = tally n (resolvePendingWithLogin r org w)"
proof -
  obtain listed w1 where l: "ListPendingInvitations (githubClient r) org w = (listed, w1)"
    by (cases "ListPendingInvitations (githubClient r) org w")
  show ?thesis
  proof (cases listed)
    case (Inl err)
    then show ?thesis
      by (simp add: resolvePendingWithLogin_def count_sum_def l tally_def)
  next
    case (Inr invites)
    have "fold (resolvePending_step (counted r) org) invites (tally n ((0, []), w1)) =
        tally n (fold (resolvePending_step r org) invites ((0, []), w1))"
      by (rule fold_tally) (rule tally_resolvePending_step)
    then show ?thesis
      using Inr by (simp add: resolvePendingWithLogin_def count_sum_def l tally_start)
  qed
qed

lemma tally_resolveFromAuditLog:
  "resolveFromAuditLog (counted_clock clk) (counted r) org (w, n) =
   tally n (resolveFromAuditLog clk r org w)"
proof -
  obtain got w1 where g: "GetAuditLogCursor (store r) org w = (got, w1)"
    by (cases "GetAuditLogCursor (store r) org w")
  show ?thesis
  proof (cases got)
    case (Inl err)
    then show ?thesis by (simp add: resolveFromAuditLog_def count_sum_def g tally_def)
  next
    case (Inr cur)
    let ?after = "case cur of Some c \<Rightarrow> ac_LastTimestamp c | None \<Rightarrow> 0"
    obtain fetched w2 where f:
      "GetAuditLogAddMemberEvents (githubClient r) org ?after w1 = (fetched, w2)"
      by (cases "GetAuditLogAddMemberEvents (githubClient r) org ?after w1")
    show ?thesis
    proof (cases fetched)
      case (Inl err)
      then show ?thesis
        using Inr by (simp add: resolveFromAuditLog_def count_sum_def g f tally_def)
    next
      case (Inr entries)
      obtain resolved errs l w3 where p:
        "fold (resolveAudit_step r org) entries ((0, [], 0), w2) = ((resolved, errs, l), w3)"
        by (cases "fold (resolveAudit_step r org) entries ((0, [], 0), w2)") auto
      have "fold (resolveAudit_step (counted r) org) entries (tally3 n ((0, [], 0), w2)) =
          tally3 n (fold (resolveAudit_step r org) entries ((0, [], 0), w2))"
        by (rule fold_tally3) (rule tally_resolveAudit_step)
      then have c: "fold (resolveAudit_step (counted r) org) entries ((0, [], 0), (w2, n)) =
          ((resolved, errs, l), (w3, n + length errs))"
        by (simp add: p tally3_def)
      obtain now w4 where k: "clk w3 = (now, w4)" by (cases "clk w3")
      obtain saved w5 where sv: "SaveAuditLogCursor (store r)
          \<lparr>ac_PK = org_pk org, ac_LastTimestamp = l, ac_LastRun = now\<rparr> w4 = (saved, w5)"
        by (cases "SaveAuditLogCursor (store r)
          \<lparr>ac_PK = org_pk org, ac_LastTimestamp = l, ac_LastRun = now\<rparr> w4")
      have plain: "resolveFromAuditLog clk r org w =
          (if l > 0 then
             (case saved of
                Some err \<Rightarrow> ((resolved, errs @ [''saving audit log cursor: '' @ err_Error err]), w5)
              | None \<Rightarrow> ((resolved, errs), w5))
           else ((resolved, errs), w3))"
        using \<open>got = Inr cur\<close> Inr
        by (simp add: resolveFromAuditLog_def g f p k sv)
      have cnt: "resolveFromAuditLog (counted_clock clk) (counted r) org (w, n) =
          (if l > 0 then
             (case saved of
                Some err \<Rightarrow> ((resolved, errs @ [''saving audit log cursor: '' @ err_Error err]),
                              (w5, n + length errs + 1))
              | None \<Rightarrow> ((resolved, errs), (w5, n + length errs)))
           else ((resolved, errs), (w3, n + length errs)))"
        using \<open>got = Inr cur\<close> Inr
        by (simp add: resolveFromAuditLog_def count_sum_def count_opt_def counted_clock_def g f
            c k sv split: option.splits)
      show ?thesis
        unfolding plain cnt by (simp add: tally_def split: option.splits)
    qed
  qed
qed

lemma tally_handleFailedAndExpired:
  "handleFailedAndExpired (counted_clock clk) (counted r) org (w, n) =
   (case handleFailedAndExpired clk r org w of
      ((failed, expired, errs), w') \<Rightarrow> ((failed, expired, errs), (w', n + length errs)))"
proof -
  obtain listed w1 where l: "ListFailedInvitations (githubClient r) org w = (listed, w1)"
    by (cases "ListFailedInvitations (githubClient r) org w")
  let ?first = "case listed of
      Inl err \<Rightarrow> ((0, [''listing failed invitations: '' @ err_Error err]), w1)
    | Inr invites \<Rightarrow> fold (failed_step r org) invites ((0, []), w1)"
  let ?failedInvites = "case listed of Inl err \<Rightarrow> [] | Inr invites \<Rightarrow> invites"
  obtain failed errs w2 where a: "?first = ((failed, errs), w2)"
    by (cases ?first) auto
  have a': "(case listed of
      Inl err \<Rightarrow> ((0, [''listing failed invitations: '' @ err_Error err]),
                  (w1, n + (case listed of Inl err \<Rightarrow> 1 | Inr v \<Rightarrow> 0)))
    | Inr invites \<Rightarrow> fold (failed_step (counted r) org) invites
        ((0, []), (w1, n + (case listed of Inl err \<Rightarrow> 1 | Inr v \<Rightarrow> 0)))) =
      ((failed, errs), (w2, n + length errs))"
  proof (cases listed)
    case (Inl err)
    then show ?thesis using a by auto
  next
    case (Inr invites)
    have "fold (failed_step (counted r) org) invites (tally n ((0, []), w1)) =
        tally n (fold (failed_step r org) invites ((0, []), w1))"
      by (rule fold_tally) (rule tally_failed_step)
    then show ?thesis using a Inr by (simp add: tally_def)
  qed
  obtain got w3 where g: "GetPendingInvitations (store r) org w2 = (got, w3)"
    by (cases "GetPendingInvitations (store r) org w2")
  show ?thesis
  proof (cases got)
    case (Inl err)
    then show ?thesis
      using a a' by (simp add: handleFailedAndExpired_def l g count_sum_def Let_def)
  next
    case (Inr pendingMappings)
    note got = this
    obtain cur w4 where c: "ListPendingInvitations (githubClient r) org w3 = (cur, w4)"
      by (cases "ListPendingInvitations (githubClient r) org w3")
    show ?thesis
    proof (cases cur)
      case (Inl err)
      then show ?thesis
        using a a' got by (simp add: handleFailedAndExpired_def l g c count_sum_def Let_def)
    next
      case (Inr currentPending)
      obtain now w5 where k: "clk w4 = (now, w5)" by (cases "clk w4")
      let ?step = "\<lambda>r. expired_step r org now (invitation_ids currentPending)
          (invitation_ids ?failedInvites)"
      obtain expired errs' w6 where p:
        "fold (?step r) pendingMappings ((0, errs), w5) = ((expired, errs'), w6)"
        by (cases "fold (?step r) pendingMappings ((0, errs), w5)") auto
      have "fold (?step (counted r)) pendingMappings (tally n ((0, errs), w5)) =
          tally n (fold (?step r) pendingMappings ((0, errs), w5))"
        by (rule fold_tally) (rule tally_expired_step)
      then have p': "fold (?step (counted r)) pendingMappings ((0, errs), (w5, n + length errs)) =
          ((expired, errs'), (w6, n + length errs'))"
        by (simp add: p tally_def)
      have plain: "handleFailedAndExpired clk r org w = ((failed, expired, errs'), w6)"
        using a got Inr by (simp add: handleFailedAndExpired_def l g c k p Let_def)
      have cnt: "handleFailedAndExpired (counted_clock clk) (counted r) org (w, n) =
          ((failed, expired, errs'), (w6, n + length errs'))"
        using a' got Inr
        by (simp add: handleFailedAndExpired_def l g c k p' count_sum_def counted_clock_def Let_def)
      show ?thesis by (simp add: plain cnt)
    qed
  qed
qed

text \<open>
  C10. Whatever the clock, the store and the directory do, and whatever the actions,
  \<open>Reconcile\<close> returns a nil error, and its \<open>Errors\<close> list holds one entry for each
  collaborator call that failed: run with the counting collaborators from a count of
  \<open>n\<close>, it returns the same result and the same outside world as the plain run, a nil
  error, and the count \<open>n\<close> plus the length of \<open>Errors\<close>. No failure ends the pass
  and none goes unrecorded.
\<close>

theorem C10_reconcile_accumulates:
  "snd (fst (Reconcile clk r executedActions w)) = None \<and>
   Reconcile (counted_clock clk) (counted r) executedActions (w, n) =
     ((fst (fst (Reconcile clk r executedActions w)), None),
      (snd (Reconcile clk r executedActions w),
       n + length (rr_Errors (fst (fst (Reconcile clk r executedActions w))))))"
proof -
  let ?org = "Organization (cfg r)"
  obtain a1 e1 w1 where p1: "saveNewInvitations clk r ?org executedActions w = ((a1, e1), w1)"
    by (cases "saveNewInvitations clk r ?org executedActions w") auto
  obtain a2 e2 w2 where p2: "markCancelledInvitations r ?org executedActions w1 = ((a2, e2), w2)"
    by (cases "markCancelledInvitations r ?org executedActions w1") auto
  obtain a3 e3 w3 where p3: "handleRemovedMembers r ?org executedActions w2 = ((a3, e3), w3)"
    by (cases "handleRemovedMembers r ?org executedActions w2") auto
  obtain a4 e4 w4 where p4: "handleRoleUpdates r ?org executedActions w3 = ((a4, e4), w4)"
    by (cases "handleRoleUpdates r ?org executedActions w3") auto
  obtain a5 e5 w5 where p5:
    "handleAlreadyInOrgMembers clk r ?org executedActions w4 = ((a5, e5), w5)"
    by (cases "handleAlreadyInOrgMembers clk r ?org executedActions w4") auto
  obtain a6 e6 w6 where p6: "resolvePendingWithLogin r ?org w5 = ((a6, e6), w6)"
    by (cases "resolvePendingWithLogin r ?org w5") auto
  obtain a7 e7 w7 where p7: "resolveFromAuditLog clk r ?org w6 = ((a7, e7), w7)"
    by (cases "resolveFromAuditLog clk r ?org w6") auto
  obtain a8 x8 e8 w8 where p8: "handleFailedAndExpired clk r ?org w7 = ((a8, x8, e8), w8)"
    by (cases "handleFailedAndExpired clk r ?org w7") auto
  have plain: "Reconcile clk r executedActions w =
      ((\<lparr>rr_NewInvitationsSaved = a1, rr_Resolved = a6 + a7, rr_Failed = a8, rr_Expired = x8,
         rr_Cancelled = a2, rr_MembersRemoved = a3, rr_RolesUpdated = a4,
         rr_AlreadyInOrgResolved = a5, rr_VerifiedEmailsMapped = 0,
         rr_Errors = e1 @ e2 @ e3 @ e4 @ e5 @ e6 @ e7 @ e8\<rparr>, None), w8)"
    by (simp add: Reconcile_def p1 p2 p3 p4 p5 p6 p7 p8)
  have cnt: "Reconcile (counted_clock clk) (counted r) executedActions (w, n) =
      ((\<lparr>rr_NewInvitationsSaved = a1, rr_Resolved = a6 + a7, rr_Failed = a8, rr_Expired = x8,
         rr_Cancelled = a2, rr_MembersRemoved = a3, rr_RolesUpdated = a4,
         rr_AlreadyInOrgResolved = a5, rr_VerifiedEmailsMapped = 0,
         rr_Errors = e1 @ e2 @ e3 @ e4 @ e5 @ e6 @ e7 @ e8\<rparr>, None),
       (w8, n + length e1 + length e2 + length e3 + length e4 + length e5 + length e6 +
            length e7 + length e8))"
    by (simp add: Reconcile_def tally_saveNewInvitations tally_markCancelledInvitations
        tally_handleRemovedMembers tally_handleRoleUpdates tally_handleAlreadyInOrgMembers
        tally_resolvePendingWithLogin tally_resolveFromAuditLog tally_handleFailedAndExpired
        p1 p2 p3 p4 p5 p6 p7 p8 tally_def)
  show ?thesis by (simp add: plain cnt)
qed

text \<open>
  With every call of the store and of the directory failing and one executed action of
  each kind (the last one is also marked already present), the pass still returns a nil
  error; every counter is zero and each of the nine failed calls is in the list.
\<close>

lemma reconcile_all_failing:
  "fst (Reconcile (\<lambda>w. (1700000000000000000, w))
     \<lparr>store = failing_store, githubClient = failing_directory,
      cfg = \<lparr>Organization = ''acme'', TTLDays = 90\<rparr>\<rparr>
     [zero_action\<lparr>sa_Type := ActionInvite, sa_Email := ''a@x.com'', sa_Executed := True,
        sa_InvitationID := Some 7\<rparr>,
      zero_action\<lparr>sa_Type := ActionCancelInvite, sa_Email := ''b@x.com'', sa_Executed := True,
        sa_InvitationID := Some 8\<rparr>,
      zero_action\<lparr>sa_Type := ActionRemove, sa_Email := ''carol'', sa_GoogleEmail := ''c@x.com'',
        sa_Executed := True\<rparr>,
      zero_action\<lparr>sa_Type := ActionUpdateRole, sa_Email := ''dan'', sa_GoogleEmail := ''d@x.com'',
        sa_TargetRole := Some RoleOwner, sa_Executed := True, sa_AlreadyInOrg := True,
        sa_Username := ''dan''\<rparr>] ()) =
   (zero_result\<lparr>rr_Errors :=
      [''saving invitation for a@x.com: down'',
       ''marking invitation 8 as cancelled: down'',
       ''looking up DynamoDB record for removed member carol (email: c@x.com): down'',
       ''looking up DynamoDB record for role update dan (email: d@x.com): down'',
       ''checking existing mapping for d@x.com: down'',
       ''listing pending invitations: down'',
       ''getting audit log cursor: down'',
       ''listing failed invitations: down'',
       ''getting pending invitations for expiry check: down'']\<rparr>, None)"
  by (simp add: Reconcile_def saveNewInvitations_def saveNewInvitations_step_def
      markCancelledInvitations_def markCancelled_step_def handleRemovedMembers_def
      handleRemoved_step_def handleRoleUpdates_def handleRole_step_def
      handleAlreadyInOrgMembers_def alreadyInOrg_step_def resolvePendingWithLogin_def
      resolveFromAuditLog_def handleFailedAndExpired_def NewInvitationMapping_def
      failing_store_def failing_directory_def zero_action_def zero_result_def
      action_type_defs err_Error_def fmt_d_def dec_nat.simps Let_def)

section \<open>Properties of the reconciliation engine over the store in memory\<close>

lemmas status_defs = InvitationPending_def InvitationResolved_def InvitationFailed_def
  InvitationExpired_def InvitationCancelled_def InvitationRemoved_def

lemma status_distinct [simp]:
  "InvitationResolved \<noteq> InvitationPending" "InvitationFailed \<noteq> InvitationPending"
  "InvitationExpired \<noteq> InvitationPending" "InvitationCancelled \<noteq> InvitationPending"
  "InvitationRemoved \<noteq> InvitationPending" "[] \<noteq> InvitationPending"
  "InvitationPending \<noteq> InvitationResolved" "InvitationPending \<noteq> InvitationFailed"
  "InvitationPending \<noteq> InvitationExpired" "InvitationPending \<noteq> InvitationCancelled"
  "InvitationPending \<noteq> InvitationRemoved" "InvitationPending \<noteq> []"
  by (simp_all add: status_defs)

lemma mem_store_sel [simp]:
  "SaveInvitation mem_store = mem_SaveInvitation"
  "GetInvitation mem_store = mem_GetInvitation"
  "GetPendingInvitations mem_store = mem_GetPendingInvitations"
  "ResolveInvitation mem_store = mem_ResolveInvitation"
  "UpdateStatus mem_store = mem_UpdateStatus"
  "UpdateRole mem_store = mem_UpdateRole"
  "GetByEmail mem_store = mem_GetByEmail"
  "GetAuditLogCursor mem_store = mem_GetAuditLogCursor"
  "SaveAuditLogCursor mem_store = mem_SaveAuditLogCursor"
  by (simp_all add: mem_store_def)

lemma mem_client_sel [simp]:
  "ListPendingInvitations mem_client org w = (Inr (pending_list w), w)"
  "GetAuditLogAddMemberEvents mem_client org after w =
     (Inr (filter (\<lambda>e. after < al_Timestamp e) (audit_events w)), w)"
  "ListFailedInvitations mem_client org w = (Inr (failed_list w), w)"
  by (simp_all add: mem_client_def)

lemma mem_reconciler_sel [simp]:
  "store (mem_reconciler org days) = mem_store"
  "githubClient (mem_reconciler org days) = mem_client"
  "Organization (cfg (mem_reconciler org days)) = org"
  "TTLDays (cfg (mem_reconciler org days)) = days"
  by (simp_all add: mem_reconciler_def)







lemma get_item_mem: "get_item pk sk t = Some m \<Longrightarrow> m \<in> set t \<and> im_PK m = pk \<and> im_SK m = sk"
  unfolding get_item_def by (induction t) (auto split: if_splits)

lemma wf_get_item: "wf_table t \<Longrightarrow> m \<in> set t \<Longrightarrow> get_item (im_PK m) (im_SK m) t = Some m"
  unfolding get_item_def wf_table_def
  by (induction t) (auto simp: item_key_def image_iff)


























lemma existing_mapping_status [simp]:
  "im_Status (existing_mapping org u e role now d) = InvitationResolved"
  by (simp add: existing_mapping_def)














end
